theory Spec2Isabelle
  imports Main "HOL-Library.AList"
begin

section \<open>The ACME client of \<open>vendor/github.com/xenolf/lego/acme/client.go\<close>\<close>

text \<open>
  The client drives a certificate order through a CA: order creation, authorization
  retrieval, challenge solving, finalization with polling, and renewal. Everything the
  Go code obtains from outside \<open>client.go\<close> (the signing transport, the solvers, the
  cryptographic helpers, the timers) is a parameter of the model. Every call of such a
  collaborator is threaded through an execution state that carries the outside world
  and a log of the calls made, so that "this was invoked" and "nothing was requested"
  are statements about the log. Calls of the logging package are left out.
\<close>

subsection \<open>Errors\<close>

text \<open>
  Modelled from the spec: the declaration of \<open>RemoteError\<close> (in \<open>error.go\<close>) is missing;
  it carries the CA's HTTP status code and its problem detail. \<open>Err\<close> is an error made
  by \<open>errors.New\<close> or \<open>fmt.Errorf\<close>, or any other error of a collaborator.
\<close>

datatype plain_error = Err string | RemoteError int string

text \<open>
  \<open>ObtainError\<close> is a Go \<open>map[string]error\<close> from domain to error. It is kept as an
  association list with unique keys (\<open>AList.update\<close> overwrites as the Go assignment
  does); \<open>len(failures) > 0\<close> is \<open>failures \<noteq> []\<close> and \<open>failures[d] != nil\<close> is
  \<open>map_of failures d \<noteq> None\<close>, since the code only ever stores non-nil errors.
\<close>

type_synonym failures = "(string \<times> plain_error) list"

datatype error = Plain plain_error | ObtainError failures

subsection \<open>Messages\<close>

text \<open>
  Modelled from the spec: the message declarations (\<open>messages.go\<close>) are missing. The
  records hold the fields that \<open>client.go\<close> reads or writes.
\<close>

type_synonym bytes = string

record acme_identifier =
  id_Type :: string
  id_Value :: string

record challenge =
  chlg_Type :: string
  chlg_URL :: string
  chlg_Status :: string
  chlg_Token :: string

record authorization =
  authz_Status :: string
  authz_Identifier :: acme_identifier
  authz_Challenges :: "challenge list"

record orderMessage =
  order_Status :: string
  order_Identifiers :: "acme_identifier list"
  order_Authorizations :: "string list"
  order_Finalize :: string
  order_Certificate :: string

definition orderMessage_zero :: orderMessage where
  "orderMessage_zero = \<lparr>order_Status = [], order_Identifiers = [], order_Authorizations = [],
     order_Finalize = [], order_Certificate = []\<rparr>"

text \<open>\<open>orderResource\<close> embeds the CA's \<open>orderMessage\<close> beside the URL and the domains.\<close>

record orderResource =
  res_URL :: string
  res_Domains :: "string list"
  res_orderMessage :: orderMessage

definition orderResource_zero :: orderResource where
  "orderResource_zero = \<lparr>res_URL = [], res_Domains = [], res_orderMessage = orderMessage_zero\<rparr>"

record accountMessage =
  acct_Status :: string
  acct_Contact :: "string list"
  acct_TermsOfServiceAgreed :: bool
  acct_OnlyReturnExisting :: bool
  acct_ExternalAccountBinding :: bytes

definition accountMessage_zero :: accountMessage where
  "accountMessage_zero = \<lparr>acct_Status = [], acct_Contact = [], acct_TermsOfServiceAgreed = False,
     acct_OnlyReturnExisting = False, acct_ExternalAccountBinding = []\<rparr>"

record RegistrationResource =
  URI :: string
  Body :: accountMessage

text \<open>
  A nil byte slice and an empty one are both \<open>[]\<close>, except for \<open>PrivateKey\<close>, which
  \<open>RenewCertificate\<close> tests against nil.
\<close>

record CertificateResource =
  Domain :: string
  CertURL :: string
  CertStableURL :: string
  PrivateKey :: "bytes option"
  Certificate :: bytes
  IssuerCertificate :: bytes
  CSR :: bytes

definition CertificateResource_zero :: CertificateResource where
  "CertificateResource_zero = \<lparr>Domain = [], CertURL = [], CertStableURL = [], PrivateKey = None,
     Certificate = [], IssuerCertificate = [], CSR = []\<rparr>"

text \<open>The fields of \<open>x509.Certificate\<close> and \<open>x509.CertificateRequest\<close> that the client reads.\<close>

record x509Certificate =
  IsCA :: bool
  cert_CommonName :: string
  cert_DNSNames :: "string list"

record CertificateRequest =
  csr_CommonName :: string
  csr_DNSNames :: "string list"
  csr_Raw :: bytes

text \<open>
  \<open>http.Header\<close> is a \<open>map[string][]string\<close>; a missing key reads as the empty slice,
  and \<open>Get\<close> returns the first value or the empty string.
\<close>

type_synonym header = "string \<Rightarrow> string list"

definition hdrGet :: "header \<Rightarrow> string \<Rightarrow> string" where
  "hdrGet h k = (case h k of [] \<Rightarrow> [] | v # _ \<Rightarrow> v)"

text \<open>
  The response to a \<open>postAsGet\<close> without a target: its headers and what
  \<open>ioutil.ReadAll\<close> yields on its body.
\<close>

record response =
  resp_Header :: header
  resp_Body :: "plain_error + bytes"

definition maxBodySize :: nat where
  "maxBodySize = 1024 * 1024"

text \<open>What \<open>ioutil.ReadAll(limitReader(resp.Body, maxBodySize))\<close> keeps of a body.\<close>

definition limitedBody :: "bytes \<Rightarrow> bytes" where
  "limitedBody body = take maxBodySize body"

definition statusValid :: string where
  "statusValid = ''valid''"

definition statusInvalid :: string where
  "statusInvalid = ''invalid''"

subsection \<open>Execution state and calls of collaborators\<close>

text \<open>The body of a \<open>postJSON\<close> request.\<close>

datatype payload =
    AccountPayload accountMessage
  | OrderPayload orderMessage
  | CsrPayload string

datatype event =
    PostJSON string payload
  | PostAsGet string
  | GeneratePrivateKey
  | GenerateCsr string "string list" bool
  | PreSolveCall authorization nat
  | SolveCall authorization nat
  | CleanUpCall authorization nat

text \<open>
  \<open>world\<close> is the state of everything outside the client, \<open>kid\<close> the account URL held
  by the signing transport (\<open>c.jws.kid\<close>), \<open>calls\<close> the collaborator calls so far.
\<close>

record 'w exec =
  world :: 'w
  kid :: string
  calls :: "event list"

definition invoke :: "event \<Rightarrow> ('w \<Rightarrow> 'a \<times> 'w) \<Rightarrow> 'w exec \<Rightarrow> 'a \<times> 'w exec" where
  "invoke ev f s =
     (case f (world s) of (r, w') \<Rightarrow> (r, s\<lparr>world := w', calls := calls s @ [ev]\<rparr>))"

subsection \<open>Solvers\<close>

text \<open>
  The interfaces \<open>solver\<close>, \<open>preSolver\<close> and \<open>cleanup\<close>: \<open>Solve\<close> is mandatory, the
  other two are capabilities tested by a type assertion, so they are optional fields.
  A method returns its \<open>error\<close> (\<open>None\<close> is nil) and the world it leaves.
\<close>

type_synonym 'w solverMethod = "challenge \<Rightarrow> string \<Rightarrow> 'w \<Rightarrow> plain_error option \<times> 'w"

record 'w solver =
  Solve :: "'w solverMethod"
  PreSolve :: "'w solverMethod option"
  CleanUp :: "'w solverMethod option"

record 'w selectedAuthSolver =
  sel_authz :: authorization
  sel_challengeIndex :: nat
  sel_solver :: "'w solver"

text \<open>\<open>c.solvers\<close>, a \<open>map[Challenge]solver\<close> keyed by the challenge type.\<close>

type_synonym 'w solvers = "string \<Rightarrow> 'w solver option"

text \<open>
  \<open>chooseSolver\<close>: the first challenge, in the server's order, whose type has a solver;
  \<open>(0, nil)\<close> when there is none. The index counts from \<open>i\<close>, the position reached.
\<close>

fun chooseSolverFrom :: "'w solvers \<Rightarrow> nat \<Rightarrow> challenge list \<Rightarrow> nat \<times> 'w solver option" where
  "chooseSolverFrom slv i [] = (0, None)"
| "chooseSolverFrom slv i (ch # chs) =
     (case slv (chlg_Type ch) of
        Some solvr \<Rightarrow> (i, Some solvr)
      | None \<Rightarrow> chooseSolverFrom slv (Suc i) chs)"

definition chooseSolver :: "'w solvers \<Rightarrow> authorization \<Rightarrow> string \<Rightarrow> nat \<times> 'w solver option" where
  "chooseSolver slv auth domain = chooseSolverFrom slv 0 (authz_Challenges auth)"

subsection \<open>\<open>solveChallengeForAuthz\<close>\<close>

definition domainOf :: "authorization \<Rightarrow> string" where
  "domainOf authz = id_Value (authz_Identifier authz)"

text \<open>First loop: skip the authorizations already valid, select a solver for the others.\<close>

fun selectLoop :: "'w solvers \<Rightarrow> authorization list \<Rightarrow> 'w selectedAuthSolver list \<Rightarrow> failures
    \<Rightarrow> 'w selectedAuthSolver list \<times> failures" where
  "selectLoop slv [] authSolvers failures = (authSolvers, failures)"
| "selectLoop slv (authz # rest) authSolvers failures =
     (if authz_Status authz = statusValid then selectLoop slv rest authSolvers failures
      else case chooseSolver slv authz (domainOf authz) of
          (i, Some solvr) \<Rightarrow>
            selectLoop slv rest
              (authSolvers @ [\<lparr>sel_authz = authz, sel_challengeIndex = i, sel_solver = solvr\<rparr>])
              failures
        | (i, None) \<Rightarrow>
            selectLoop slv rest authSolvers
              (AList.update (domainOf authz)
                 (Err (''['' @ domainOf authz @ ''] acme: Could not determine solvers''))
                 failures))"

text \<open>Second loop: \<open>PreSolve\<close> for every selected pair whose solver is a \<open>preSolver\<close>.\<close>

fun preSolveLoop :: "'w selectedAuthSolver list \<Rightarrow> failures \<Rightarrow> 'w exec \<Rightarrow> failures \<times> 'w exec" where
  "preSolveLoop [] failures s = (failures, s)"
| "preSolveLoop (item # rest) failures s =
     (let authz = sel_authz item; i = sel_challengeIndex item in
      case PreSolve (sel_solver item) of
        None \<Rightarrow> preSolveLoop rest failures s
      | Some presolve \<Rightarrow>
          (case invoke (PreSolveCall authz i)
                  (presolve (authz_Challenges authz ! i) (domainOf authz)) s of
             (None, s') \<Rightarrow> preSolveLoop rest failures s'
           | (Some err, s') \<Rightarrow>
               preSolveLoop rest (AList.update (domainOf authz) err failures) s'))"

text \<open>Third loop: \<open>Solve\<close> for every selected pair whose domain has no failure yet.\<close>

fun solveLoop :: "'w selectedAuthSolver list \<Rightarrow> failures \<Rightarrow> 'w exec \<Rightarrow> failures \<times> 'w exec" where
  "solveLoop [] failures s = (failures, s)"
| "solveLoop (item # rest) failures s =
     (let authz = sel_authz item; i = sel_challengeIndex item in
      if map_of failures (domainOf authz) \<noteq> None then solveLoop rest failures s
      else case invoke (SolveCall authz i)
                  (Solve (sel_solver item) (authz_Challenges authz ! i) (domainOf authz)) s of
             (None, s') \<Rightarrow> solveLoop rest failures s'
           | (Some err, s') \<Rightarrow>
               solveLoop rest (AList.update (domainOf authz) err failures) s')"

text \<open>
  The deferred function. It runs when \<open>solveChallengeForAuthz\<close> returns, so the
  \<open>failures\<close> it reads are those left by the third loop. The error of \<open>CleanUp\<close> is
  only logged.
\<close>

fun cleanUpLoop :: "'w selectedAuthSolver list \<Rightarrow> failures \<Rightarrow> 'w exec \<Rightarrow> 'w exec" where
  "cleanUpLoop [] failures s = s"
| "cleanUpLoop (item # rest) failures s =
     (case CleanUp (sel_solver item) of
        None \<Rightarrow> cleanUpLoop rest failures s
      | Some clean \<Rightarrow>
          if map_of failures (domainOf (sel_authz item)) \<noteq> None
          then cleanUpLoop rest failures s
          else (case invoke (CleanUpCall (sel_authz item) (sel_challengeIndex item))
                       (clean (authz_Challenges (sel_authz item) ! sel_challengeIndex item)
                          (domainOf (sel_authz item))) s of
                  (err, s') \<Rightarrow> cleanUpLoop rest failures s'))"

definition solveChallengeForAuthz :: "'w solvers \<Rightarrow> authorization list \<Rightarrow> 'w exec
    \<Rightarrow> error option \<times> 'w exec" where
  "solveChallengeForAuthz slv authorizations s =
     (case selectLoop slv authorizations [] [] of
        (authSolvers, failures0) \<Rightarrow>
          (case preSolveLoop authSolvers failures0 s of
             (failures1, s1) \<Rightarrow>
               (case solveLoop authSolvers failures1 s1 of
                  (failures2, s2) \<Rightarrow>
                    (if length failures2 > 0 then Some (ObtainError failures2) else None,
                     cleanUpLoop authSolvers failures2 s2))))"

subsection \<open>The client and its collaborators\<close>

text \<open>
  Modelled from the spec: the signing transport (\<open>postJSON\<close>, \<open>postAsGet\<close> of
  \<open>http.go\<close>), the cryptographic helpers (\<open>crypto.go\<close>) and the standard library are
  missing. Each is a field of \<open>env\<close>. A transport operation takes the account URL of
  the transport, the URL and the payload, and returns what it decoded into its target
  together with its error (\<open>None\<close> is nil); one field per type of target.
  \<open>postAsGet_order\<close> decodes into the order read before, so it takes that order.
\<close>

type_synonym privateKey = bytes

record 'w env =
  postJSON_account :: "string \<Rightarrow> string \<Rightarrow> accountMessage \<Rightarrow> 'w
    \<Rightarrow> (header \<times> accountMessage \<times> plain_error option) \<times> 'w"
  postJSON_order :: "string \<Rightarrow> string \<Rightarrow> orderMessage \<Rightarrow> 'w
    \<Rightarrow> (header \<times> orderMessage \<times> plain_error option) \<times> 'w"
  postJSON_csr :: "string \<Rightarrow> string \<Rightarrow> string \<Rightarrow> 'w
    \<Rightarrow> (orderMessage \<times> plain_error option) \<times> 'w"
  postAsGet_order :: "string \<Rightarrow> string \<Rightarrow> orderMessage \<Rightarrow> 'w
    \<Rightarrow> (orderMessage \<times> plain_error option) \<times> 'w"
  postAsGet_authz :: "string \<Rightarrow> string \<Rightarrow> 'w
    \<Rightarrow> (authorization \<times> plain_error option) \<times> 'w"
  postAsGet_raw :: "string \<Rightarrow> string \<Rightarrow> 'w \<Rightarrow> (plain_error + response) \<times> 'w"
  generatePrivateKey :: "string \<Rightarrow> 'w \<Rightarrow> (plain_error + privateKey) \<times> 'w"
  generateCsr :: "privateKey \<Rightarrow> string \<Rightarrow> string list \<Rightarrow> bool \<Rightarrow> 'w
    \<Rightarrow> (plain_error + bytes) \<times> 'w"
  pemEncode_key :: "privateKey \<Rightarrow> bytes"
  pemEncode_cert :: "bytes \<Rightarrow> bytes"
  pemEncode_csr :: "CertificateRequest \<Rightarrow> bytes"
  base64_RawURLEncoding :: "bytes \<Rightarrow> string"
  pem_Decode_rest :: "bytes \<Rightarrow> bytes option"
  x509_ParseCertificate :: "bytes \<Rightarrow> plain_error option"
  slver_FindStringSubmatch :: "string \<Rightarrow> (string \<times> string \<times> string) option"
  parsePEMBundle :: "bytes \<Rightarrow> plain_error + x509Certificate list"
  pemDecodeTox509CSR :: "bytes \<Rightarrow> plain_error + CertificateRequest"
  parsePEMPrivateKey :: "bytes \<Rightarrow> plain_error + privateKey"

record directory =
  NewAccountURL :: string
  NewOrderURL :: string

record User =
  user_Email :: string
  user_Registration :: "RegistrationResource option"

text \<open>
  \<open>Client\<close>. Its \<open>jws\<close> is a pointer shared with the transport; the one field the client
  writes, \<open>kid\<close>, lives in the execution state.
\<close>

record 'w Client =
  directory :: directory
  user :: "User option"
  keyType :: string
  solvers :: "'w solvers"

subsection \<open>\<open>Register\<close>\<close>

definition isConflict :: "plain_error \<Rightarrow> bool" where
  "isConflict err = (case err of RemoteError statusCode detail \<Rightarrow> statusCode = 409 | Err m \<Rightarrow> False)"

text \<open>The account message that \<open>Register\<close> builds from the user's email.\<close>

definition newAccountMessage :: "string \<Rightarrow> bool \<Rightarrow> accountMessage" where
  "newAccountMessage email tosAgreed =
     accountMessage_zero
       \<lparr>acct_Contact := (if email \<noteq> [] then [''mailto:'' @ email] else []),
        acct_TermsOfServiceAgreed := tosAgreed\<rparr>"

definition Register :: "'w env \<Rightarrow> 'w Client option \<Rightarrow> bool \<Rightarrow> 'w exec
    \<Rightarrow> (RegistrationResource option \<times> plain_error option) \<times> 'w exec" where
  "Register env c tosAgreed s =
     (case (case c of None \<Rightarrow> None | Some cl \<Rightarrow> map_option (Pair cl) (user cl)) of
        None \<Rightarrow> ((None, Some (Err ''acme: cannot register a nil client or user'')), s)
      | Some (cl, u) \<Rightarrow>
          (let accMsg = newAccountMessage (user_Email u) tosAgreed;
               url = NewAccountURL (directory cl)
           in case invoke (PostJSON url (AccountPayload accMsg))
                     (postJSON_account env (kid s) url accMsg) s of
             ((hdr, serverReg, err), s') \<Rightarrow>
               (case (case err of None \<Rightarrow> None
                      | Some e \<Rightarrow> if isConflict e then None else Some e) of
                  Some e \<Rightarrow> ((None, Some e), s')
                | None \<Rightarrow>
                    (let reg = \<lparr>URI = hdrGet hdr ''Location'', Body = serverReg\<rparr>
                     in ((Some reg, None), s'\<lparr>kid := URI reg\<rparr>)))))"

subsection \<open>\<open>createOrderForIdentifiers\<close>\<close>

definition createOrderForIdentifiers :: "'w env \<Rightarrow> 'w Client \<Rightarrow> string list \<Rightarrow> 'w exec
    \<Rightarrow> (orderResource \<times> plain_error option) \<times> 'w exec" where
  "createOrderForIdentifiers env c domains s =
     (let identifiers = map (\<lambda>domain. \<lparr>id_Type = ''dns'', id_Value = domain\<rparr>) domains;
          order = orderMessage_zero\<lparr>order_Identifiers := identifiers\<rparr>;
          url = NewOrderURL (directory c)
      in case invoke (PostJSON url (OrderPayload order))
                (postJSON_order env (kid s) url order) s of
        ((hdr, resp, Some err), s') \<Rightarrow> ((orderResource_zero, Some err), s')
      | ((hdr, resp, None), s') \<Rightarrow>
          ((\<lparr>res_URL = hdrGet hdr ''Location'', res_Domains = domains, res_orderMessage = resp\<rparr>,
            None), s'))"

subsection \<open>\<open>getAuthzForOrder\<close>\<close>

text \<open>
  One goroutine per authorization URL sends either an authorization or a
  \<open>domainError\<close>. \<open>launchLoop\<close> runs the goroutines in the order of their launch
  (the pauses between launches are left out) and gives their messages in that order;
  \<open>collectLoop\<close> is the receiving loop, over the messages in any order of arrival.
\<close>

type_synonym completion = "(string \<times> plain_error) + authorization"

definition fetchAuthz :: "'w env \<Rightarrow> string \<Rightarrow> 'w exec \<Rightarrow> completion \<times> 'w exec" where
  "fetchAuthz env authzURL s =
     (case invoke (PostAsGet authzURL) (postAsGet_authz env (kid s) authzURL) s of
        ((authz, Some err), s') \<Rightarrow> (Inl (domainOf authz, err), s')
      | ((authz, None), s') \<Rightarrow> (Inr authz, s'))"

fun launchLoop :: "'w env \<Rightarrow> string list \<Rightarrow> 'w exec \<Rightarrow> completion list \<times> 'w exec" where
  "launchLoop env [] s = ([], s)"
| "launchLoop env (authzURL # rest) s =
     (case fetchAuthz env authzURL s of
        (m, s') \<Rightarrow> (case launchLoop env rest s' of (ms, s'') \<Rightarrow> (m # ms, s'')))"

fun collectLoop :: "completion list \<Rightarrow> authorization list \<Rightarrow> failures
    \<Rightarrow> authorization list \<times> failures" where
  "collectLoop [] responses failures = (responses, failures)"
| "collectLoop (Inr res # rest) responses failures =
     collectLoop rest (responses @ [res]) failures"
| "collectLoop (Inl (domain, err) # rest) responses failures =
     collectLoop rest responses (AList.update domain err failures)"

text \<open>
  \<open>logAuthz\<close> indexes \<open>order.Identifiers\<close> with the positions of
  \<open>order.Authorizations\<close>: it panics when the CA sent fewer identifiers.
\<close>

definition logAuthz_panics :: "orderResource \<Rightarrow> bool" where
  "logAuthz_panics order =
     (length (order_Identifiers (res_orderMessage order))
        < length (order_Authorizations (res_orderMessage order)))"

text \<open>
  From here on \<open>None\<close> is a call that does not return: a runtime panic, or a \<open>select\<close>
  that waits on timers that never fire.
\<close>

definition getAuthzForOrder :: "'w env \<Rightarrow> 'w Client \<Rightarrow> orderResource \<Rightarrow> 'w exec
    \<Rightarrow> ((authorization list \<times> error option) \<times> 'w exec) option" where
  "getAuthzForOrder env c order s =
     (case launchLoop env (order_Authorizations (res_orderMessage order)) s of
        (messages, s') \<Rightarrow>
          (case collectLoop messages [] [] of
             (responses, failures) \<Rightarrow>
               if logAuthz_panics order then None
               else if length failures > 0 then Some ((responses, Some (ObtainError failures)), s')
               else Some ((responses, None), s')))"

subsection \<open>\<open>parseLinks\<close> and \<open>getIssuerCertificate\<close>\<close>

text \<open>\<open>strings.Split\<close> with a separator of one character.\<close>

fun splitOn :: "char \<Rightarrow> string \<Rightarrow> string list" where
  "splitOn sep [] = [[]]"
| "splitOn sep (x # xs) =
     (if x = sep then [] # splitOn sep xs
      else (case splitOn sep xs of [] \<Rightarrow> [[x]] | part # parts \<Rightarrow> (x # part) # parts))"

text \<open>
  The loop of \<open>parseLinks\<close>. The angle brackets are removed, the link is split at
  \<open>;\<close>, and \<open>parts[1]\<close> panics when there is no second part. The match of the regular
  expression \<open>slver\<close> is a collaborator: the whole match and its two groups, if any.
\<close>

fun parseLinksLoop :: "'w env \<Rightarrow> string list \<Rightarrow> (string \<times> string) list
    \<Rightarrow> (string \<times> string) list option" where
  "parseLinksLoop env [] linkMap = Some linkMap"
| "parseLinksLoop env (link # rest) linkMap =
     (let parts = splitOn (CHR '';'') (filter (\<lambda>ch. ch \<noteq> CHR ''<'' \<and> ch \<noteq> CHR ''>'') link)
      in case parts of
           part0 # part1 # furtherParts \<Rightarrow>
             (case slver_FindStringSubmatch env part1 of
                Some (whole, group1, group2) \<Rightarrow>
                  parseLinksLoop env rest (AList.update group2 part0 linkMap)
              | None \<Rightarrow> parseLinksLoop env rest linkMap)
         | _ \<Rightarrow> None)"

definition parseLinks :: "'w env \<Rightarrow> string list \<Rightarrow> (string \<times> string) list option" where
  "parseLinks env links = parseLinksLoop env links []"

definition getIssuerCertificate :: "'w env \<Rightarrow> string \<Rightarrow> 'w exec
    \<Rightarrow> (plain_error + bytes) \<times> 'w exec" where
  "getIssuerCertificate env url s =
     (case invoke (PostAsGet url) (postAsGet_raw env (kid s) url) s of
        (Inl err, s') \<Rightarrow> (Inl err, s')
      | (Inr resp, s') \<Rightarrow>
          (case resp_Body resp of
             Inl err \<Rightarrow> (Inl err, s')
           | Inr body \<Rightarrow>
               (let issuerBytes = limitedBody body
                in case x509_ParseCertificate env issuerBytes of
                     Some err \<Rightarrow> (Inl err, s')
                   | None \<Rightarrow> (Inr issuerBytes, s'))))"

subsection \<open>\<open>checkCertResponse\<close>\<close>

text \<open>
  The result is the pair \<open>(bool, error)\<close> of the Go function and the certificate
  resource behind the pointer \<open>certRes\<close> as the call leaves it.
\<close>

definition checkCertResponse :: "'w env \<Rightarrow> orderMessage \<Rightarrow> CertificateResource \<Rightarrow> bool
    \<Rightarrow> 'w exec \<Rightarrow> ((bool \<times> plain_error option) \<times> CertificateResource \<times> 'w exec) option" where
  "checkCertResponse env order certRes bundle s =
     (if order_Status order = statusValid then
        (case invoke (PostAsGet (order_Certificate order))
                (postAsGet_raw env (kid s) (order_Certificate order)) s of
           (Inl err, s1) \<Rightarrow> Some ((False, Some err), certRes, s1)
         | (Inr resp, s1) \<Rightarrow>
             (case resp_Body resp of
                Inl err \<Rightarrow> Some ((False, Some err), certRes, s1)
              | Inr body \<Rightarrow>
                  (let cert = limitedBody body in
                   case parseLinks env (resp_Header resp ''Link'') of
                     None \<Rightarrow> None
                   | Some links \<Rightarrow>
                       (case map_of links ''up'' of
                          Some link \<Rightarrow>
                            (case getIssuerCertificate env link s1 of
                               (Inl err, s2) \<Rightarrow>
                                 Some ((True, None),
                                   certRes\<lparr>Certificate := cert,
                                     CertURL := order_Certificate order,
                                     CertStableURL := order_Certificate order\<rparr>, s2)
                             | (Inr issuerBytes, s2) \<Rightarrow>
                                 (let issuerCert = pemEncode_cert env issuerBytes
                                  in Some ((True, None),
                                       certRes\<lparr>IssuerCertificate := issuerCert,
                                         Certificate := (if bundle then cert @ issuerCert else cert),
                                         CertURL := order_Certificate order,
                                         CertStableURL := order_Certificate order\<rparr>, s2)))
                        | None \<Rightarrow>
                            Some ((True, None),
                              (case pem_Decode_rest env cert of
                                 Some rest \<Rightarrow> certRes\<lparr>IssuerCertificate := rest\<rparr>
                               | None \<Rightarrow> certRes)
                              \<lparr>Certificate := cert,
                               CertURL := order_Certificate order,
                               CertStableURL := order_Certificate order\<rparr>, s1)))))
      else if order_Status order = ''processing'' then Some ((False, None), certRes, s)
      else if order_Status order = statusInvalid then
        Some ((False, Some (Err ''order has invalid state: invalid'')), certRes, s)
      else Some ((False, None), certRes, s))"

subsection \<open>\<open>requestCertificateForCsr\<close>\<close>

text \<open>
  What a \<open>select\<close> of the polling loop receives: a tick of the 500 ms ticker
  \<open>retryTick\<close>, or the firing of the 30 s timer \<open>stopTimer\<close>. The sequence of these
  receptions is given from outside; the empty sequence is a \<open>select\<close> that waits for
  ever.
\<close>

datatype timerEvent = RetryTick | StopTimer

fun pollLoop :: "'w env \<Rightarrow> orderResource \<Rightarrow> bool \<Rightarrow> timerEvent list \<Rightarrow> orderMessage
    \<Rightarrow> CertificateResource \<Rightarrow> 'w exec
    \<Rightarrow> ((CertificateResource option \<times> plain_error option) \<times> 'w exec) option" where
  "pollLoop env order bundle [] retOrder certRes s = None"
| "pollLoop env order bundle (StopTimer # sched) retOrder certRes s =
     Some ((None, Some (Err ''certificate polling timed out'')), s)"
| "pollLoop env order bundle (RetryTick # sched) retOrder certRes s =
     (case invoke (PostAsGet (res_URL order))
             (postAsGet_order env (kid s) (res_URL order) retOrder) s of
        ((retOrder', Some err), s1) \<Rightarrow> Some ((None, Some err), s1)
      | ((retOrder', None), s1) \<Rightarrow>
          (case checkCertResponse env retOrder' certRes bundle s1 of
             None \<Rightarrow> None
           | Some ((done, Some err), certRes', s2) \<Rightarrow> Some ((None, Some err), s2)
           | Some ((done, None), certRes', s2) \<Rightarrow>
               if done then Some ((Some certRes', None), s2)
               else pollLoop env order bundle sched retOrder' certRes' s2))"

text \<open>
  \<open>order.Domains[0]\<close> panics on an order without domains. After the finalize request
  the variable \<open>err\<close> is nil, and it is this \<open>err\<close> that the branch for the status
  \<open>invalid\<close> returns.
\<close>

definition requestCertificateForCsr :: "'w env \<Rightarrow> 'w Client \<Rightarrow> orderResource \<Rightarrow> bool \<Rightarrow> bytes
    \<Rightarrow> bytes option \<Rightarrow> timerEvent list \<Rightarrow> 'w exec
    \<Rightarrow> ((CertificateResource option \<times> plain_error option) \<times> 'w exec) option" where
  "requestCertificateForCsr env c order bundle csr privateKeyPem sched s =
     (case res_Domains order of
        [] \<Rightarrow> None
      | commonName # others \<Rightarrow>
          (let csrString = base64_RawURLEncoding env csr;
               url = order_Finalize (res_orderMessage order)
           in case invoke (PostJSON url (CsrPayload csrString))
                     (postJSON_csr env (kid s) url csrString) s of
                ((retOrder, Some err), s1) \<Rightarrow> Some ((None, Some err), s1)
              | ((retOrder, None), s1) \<Rightarrow>
                  if order_Status retOrder = statusInvalid then Some ((None, None), s1)
                  else
                    (let certRes = CertificateResource_zero
                           \<lparr>Domain := commonName,
                            CertURL := order_Certificate retOrder,
                            PrivateKey := privateKeyPem\<rparr>
                     in if order_Status retOrder = statusValid then
                          (case checkCertResponse env retOrder certRes bundle s1 of
                             None \<Rightarrow> None
                           | Some ((ok, Some err), certRes', s2) \<Rightarrow> Some ((None, Some err), s2)
                           | Some ((ok, None), certRes', s2) \<Rightarrow>
                               if ok then Some ((Some certRes', None), s2)
                               else pollLoop env order bundle sched retOrder certRes' s2)
                        else pollLoop env order bundle sched retOrder certRes s1)))"

subsection \<open>\<open>requestCertificateForOrder\<close>\<close>

definition requestCertificateForOrder :: "'w env \<Rightarrow> 'w Client \<Rightarrow> orderResource \<Rightarrow> bool
    \<Rightarrow> privateKey option \<Rightarrow> bool \<Rightarrow> timerEvent list \<Rightarrow> 'w exec
    \<Rightarrow> ((CertificateResource option \<times> plain_error option) \<times> 'w exec) option" where
  "requestCertificateForOrder env c order bundle privKey mustStaple sched s =
     (case (case privKey of
              Some key \<Rightarrow> (Inr key, s)
            | None \<Rightarrow> invoke GeneratePrivateKey (generatePrivateKey env (keyType c)) s) of
        (Inl err, s1) \<Rightarrow> Some ((None, Some err), s1)
      | (Inr key, s1) \<Rightarrow>
          (case res_Domains order of
             [] \<Rightarrow> None
           | commonName # others \<Rightarrow>
               (let san = commonName #
                      map id_Value
                        (filter (\<lambda>auth. id_Value auth \<noteq> commonName)
                           (order_Identifiers (res_orderMessage order)))
                in case invoke (GenerateCsr commonName san mustStaple)
                          (generateCsr env key commonName san mustStaple) s1 of
                     (Inl err, s2) \<Rightarrow> Some ((None, Some err), s2)
                   | (Inr csr, s2) \<Rightarrow>
                       requestCertificateForCsr env c order bundle csr
                         (Some (pemEncode_key env key)) sched s2)))"

subsection \<open>\<open>ObtainCertificate\<close> and \<open>ObtainCertificateForCSR\<close>\<close>

text \<open>The loop that charges the error of the certificate request to every authorization.\<close>

fun failAllLoop :: "authorization list \<Rightarrow> plain_error \<Rightarrow> failures \<Rightarrow> failures" where
  "failAllLoop [] err failures = failures"
| "failAllLoop (auth # rest) err failures =
     failAllLoop rest err (AList.update (domainOf auth) err failures)"

text \<open>The failure map built after the certificate request from its error.\<close>

definition requestFailures :: "authorization list \<Rightarrow> plain_error option \<Rightarrow> failures" where
  "requestFailures authz err =
     (case err of
        Some e \<Rightarrow> failAllLoop authz e []
      | None \<Rightarrow> [])"

definition ObtainCertificate :: "'w env \<Rightarrow> 'w Client \<Rightarrow> string list \<Rightarrow> bool
    \<Rightarrow> privateKey option \<Rightarrow> bool \<Rightarrow> timerEvent list \<Rightarrow> 'w exec
    \<Rightarrow> ((CertificateResource option \<times> error option) \<times> 'w exec) option" where
  "ObtainCertificate env c domains bundle privKey mustStaple sched s =
     (if length domains = 0 then
        Some ((None, Some (Plain (Err ''no domains to obtain a certificate for''))), s)
      else
        (case createOrderForIdentifiers env c domains s of
           ((order, Some err), s1) \<Rightarrow> Some ((None, Some (Plain err)), s1)
         | ((order, None), s1) \<Rightarrow>
             (case getAuthzForOrder env c order s1 of
                None \<Rightarrow> None
              | Some ((authz, Some err), s2) \<Rightarrow> Some ((None, Some err), s2)
              | Some ((authz, None), s2) \<Rightarrow>
                  (case solveChallengeForAuthz (solvers c) authz s2 of
                     (Some err, s3) \<Rightarrow> Some ((None, Some err), s3)
                   | (None, s3) \<Rightarrow>
                       (case requestCertificateForOrder env c order bundle privKey mustStaple
                               sched s3 of
                          None \<Rightarrow> None
                        | Some ((cert, err), s4) \<Rightarrow>
                            (let failures = requestFailures authz err
                             in if length failures > 0
                                then Some ((cert, Some (ObtainError failures)), s4)
                                else Some ((cert, None), s4)))))))"

text \<open>
  The loop labelled \<open>DNSNames\<close>: a name of the CSR is appended unless it is already
  among the domains.
\<close>

fun dnsNamesLoop :: "string list \<Rightarrow> string list \<Rightarrow> string list" where
  "dnsNamesLoop [] domains = domains"
| "dnsNamesLoop (sanName # rest) domains =
     (if sanName \<in> set domains then dnsNamesLoop rest domains
      else dnsNamesLoop rest (domains @ [sanName]))"

definition ObtainCertificateForCSR :: "'w env \<Rightarrow> 'w Client \<Rightarrow> CertificateRequest \<Rightarrow> bool
    \<Rightarrow> timerEvent list \<Rightarrow> 'w exec
    \<Rightarrow> ((CertificateResource option \<times> error option) \<times> 'w exec) option" where
  "ObtainCertificateForCSR env c csr bundle sched s =
     (let domains = dnsNamesLoop (csr_DNSNames csr) [csr_CommonName csr] in
      case createOrderForIdentifiers env c domains s of
        ((order, Some err), s1) \<Rightarrow> Some ((None, Some (Plain err)), s1)
      | ((order, None), s1) \<Rightarrow>
          (case getAuthzForOrder env c order s1 of
             None \<Rightarrow> None
           | Some ((authz, Some err), s2) \<Rightarrow> Some ((None, Some err), s2)
           | Some ((authz, None), s2) \<Rightarrow>
               (case solveChallengeForAuthz (solvers c) authz s2 of
                  (Some err, s3) \<Rightarrow> Some ((None, Some err), s3)
                | (None, s3) \<Rightarrow>
                    (case requestCertificateForCsr env c order bundle (csr_Raw csr) None
                            sched s3 of
                       None \<Rightarrow> None
                     | Some ((cert, err), s4) \<Rightarrow>
                         (let failures = requestFailures authz err;
                              cert' = map_option (\<lambda>cr. cr\<lparr>CSR := pemEncode_csr env csr\<rparr>) cert
                          in if length failures > 0
                             then Some ((cert', Some (ObtainError failures)), s4)
                             else Some ((cert', None), s4))))))"

subsection \<open>\<open>RenewCertificate\<close>\<close>

text \<open>
  The domains that \<open>RenewCertificate\<close> derives from the decoded certificate when the
  resource holds no CSR (the block under "check for SAN certificate").
\<close>

definition renewalDomains :: "x509Certificate \<Rightarrow> string list" where
  "renewalDomains x509Cert =
     (if length (cert_DNSNames x509Cert) > 1 then
        cert_CommonName x509Cert #
          filter (\<lambda>sanDomain. sanDomain \<noteq> cert_CommonName x509Cert) (cert_DNSNames x509Cert)
      else [cert_CommonName x509Cert])"

text \<open>
  The private key to reuse: none when the resource holds no key, the parsed key
  otherwise, or the error of parsing it.
\<close>

definition reusedPrivateKey :: "'w env \<Rightarrow> CertificateResource
    \<Rightarrow> plain_error + privateKey option" where
  "reusedPrivateKey env cert =
     (case PrivateKey cert of
        None \<Rightarrow> Inr None
      | Some pemKey \<Rightarrow> map_sum id Some (parsePEMPrivateKey env pemKey))"

text \<open>\<open>certificates[0]\<close> panics on an empty bundle that parsed without error.\<close>

definition RenewCertificate :: "'w env \<Rightarrow> 'w Client \<Rightarrow> CertificateResource \<Rightarrow> bool \<Rightarrow> bool
    \<Rightarrow> timerEvent list \<Rightarrow> 'w exec
    \<Rightarrow> ((CertificateResource option \<times> error option) \<times> 'w exec) option" where
  "RenewCertificate env c cert bundle mustStaple sched s =
     (case parsePEMBundle env (Certificate cert) of
        Inl err \<Rightarrow> Some ((None, Some (Plain err)), s)
      | Inr [] \<Rightarrow> None
      | Inr (x509Cert # chain) \<Rightarrow>
          if IsCA x509Cert then
            Some ((None, Some (Plain (Err (''['' @ Domain cert
                     @ ''] Certificate bundle starts with a CA certificate'')))), s)
          else if length (CSR cert) > 0 then
            (case pemDecodeTox509CSR env (CSR cert) of
               Inl errP \<Rightarrow> Some ((None, Some (Plain errP)), s)
             | Inr csr \<Rightarrow> ObtainCertificateForCSR env c csr bundle sched s)
          else
            (case reusedPrivateKey env cert of
               Inl err \<Rightarrow> Some ((None, Some (Plain err)), s)
             | Inr privKey \<Rightarrow>
                 ObtainCertificate env c (renewalDomains x509Cert) bundle privKey mustStaple
                   sched s))"

section \<open>Reading the log of calls\<close>

text \<open>The authorization that a solver call was made for.\<close>

fun eventAuthz :: "event \<Rightarrow> authorization option" where
  "eventAuthz (PreSolveCall a i) = Some a"
| "eventAuthz (SolveCall a i) = Some a"
| "eventAuthz (CleanUpCall a i) = Some a"
| "eventAuthz (PostJSON url body) = None"
| "eventAuthz (PostAsGet url) = None"
| "eventAuthz GeneratePrivateKey = None"
| "eventAuthz (GenerateCsr cn san staple) = None"

text \<open>The number of \<open>PreSolve\<close>, \<open>Solve\<close> and \<open>CleanUp\<close> calls made for an authorization.\<close>

definition solverCallsFor :: "authorization \<Rightarrow> event list \<Rightarrow> nat" where
  "solverCallsFor a evs = length (filter (\<lambda>ev. eventAuthz ev = Some a) evs)"

text \<open>The common names of the certificate requests generated, in order.\<close>

fun csrCommonNames :: "event list \<Rightarrow> string list" where
  "csrCommonNames [] = []"
| "csrCommonNames (GenerateCsr cn san staple # evs) = cn # csrCommonNames evs"
| "csrCommonNames (ev # evs) = csrCommonNames evs"

text \<open>The identifier values of the orders submitted, one list per new-order request.\<close>

fun submittedIdentifiers :: "event list \<Rightarrow> string list list" where
  "submittedIdentifiers [] = []"
| "submittedIdentifiers (PostJSON url (OrderPayload order) # evs) =
     map id_Value (order_Identifiers order) # submittedIdentifiers evs"
| "submittedIdentifiers (ev # evs) = submittedIdentifiers evs"

text \<open>
  The failure maps that the aggregating functions hold when they choose their error:
  that of \<open>solveChallengeForAuthz\<close> after its third loop, and that of
  \<open>getAuthzForOrder\<close> after its receiving loop.
\<close>

definition solveFailures :: "'w solvers \<Rightarrow> authorization list \<Rightarrow> 'w exec \<Rightarrow> failures" where
  "solveFailures slv authorizations s =
     (case selectLoop slv authorizations [] [] of
        (authSolvers, failures0) \<Rightarrow>
          (case preSolveLoop authSolvers failures0 s of
             (failures1, s1) \<Rightarrow> fst (solveLoop authSolvers failures1 s1)))"

definition fetchFailures :: "'w env \<Rightarrow> orderResource \<Rightarrow> 'w exec \<Rightarrow> failures" where
  "fetchFailures env order s =
     snd (collectLoop (fst (launchLoop env (order_Authorizations (res_orderMessage order)) s)) [] [])"

section \<open>A scripted CA and other concrete inputs\<close>

text \<open>
  A CA for running the model: its world is the list of order statuses it will report,
  one per finalize or poll request, and \<open>processing\<close> once the list is used up. Every
  authorization it serves is already valid.
\<close>

definition locationHeader :: "string \<Rightarrow> header" where
  "locationHeader url k = (if k = ''Location'' then [url] else [])"

definition nextStatus :: "string list \<Rightarrow> string \<times> string list" where
  "nextStatus w = (case w of [] \<Rightarrow> (''processing'', []) | st # rest \<Rightarrow> (st, rest))"

definition scriptedCA :: "(string list) env" where
  "scriptedCA =
     \<lparr>postJSON_account = (\<lambda>k url msg w. ((locationHeader ''https://ca/acct/1'', msg, None), w)),
      postJSON_order = (\<lambda>k url msg w.
        ((locationHeader ''https://ca/order/1'',
          msg\<lparr>order_Status := ''pending'',
              order_Authorizations :=
                map (\<lambda>i. ''https://ca/authz/'' @ id_Value i) (order_Identifiers msg),
              order_Finalize := ''https://ca/finalize/1''\<rparr>,
          None), w)),
      postJSON_csr = (\<lambda>k url csr w.
        case nextStatus w of
          (st, w') \<Rightarrow>
            ((orderMessage_zero\<lparr>order_Status := st, order_Certificate := ''https://ca/cert/1''\<rparr>,
              None), w')),
      postAsGet_order = (\<lambda>k url old w.
        case nextStatus w of (st, w') \<Rightarrow> ((old\<lparr>order_Status := st\<rparr>, None), w')),
      postAsGet_authz = (\<lambda>k url w.
        ((\<lparr>authz_Status = ''valid'',
           authz_Identifier = \<lparr>id_Type = ''dns'', id_Value = drop 17 url\<rparr>,
           authz_Challenges = []\<rparr>, None), w)),
      postAsGet_raw = (\<lambda>k url w. (Inr \<lparr>resp_Header = (\<lambda>h. []), resp_Body = Inr ''LEAF''\<rparr>, w)),
      generatePrivateKey = (\<lambda>kt w. (Inr ''KEY'', w)),
      generateCsr = (\<lambda>key cn san staple w. (Inr (''CSR '' @ cn), w)),
      pemEncode_key = (\<lambda>key. key),
      pemEncode_cert = (\<lambda>der. der),
      pemEncode_csr = csr_Raw,
      base64_RawURLEncoding = (\<lambda>b. b),
      pem_Decode_rest = (\<lambda>b. None),
      x509_ParseCertificate = (\<lambda>b. None),
      slver_FindStringSubmatch = (\<lambda>part. None),
      parsePEMBundle = (\<lambda>b. Inl (Err ''no certificate'')),
      pemDecodeTox509CSR = (\<lambda>b. Inl (Err ''no CSR'')),
      parsePEMPrivateKey = (\<lambda>b. Inr b)\<rparr>"

text \<open>A CA that answers the new-account request with 409 Conflict.\<close>

definition conflictCA :: "(string list) env" where
  "conflictCA = scriptedCA
     \<lparr>postJSON_account := (\<lambda>k url msg w.
        ((locationHeader ''https://ca/acct/7'', accountMessage_zero\<lparr>acct_Status := ''valid''\<rparr>,
          Some (RemoteError 409 ''account exists'')), w))\<rparr>"

text \<open>A CA that answers the new-account request with 503.\<close>

definition unavailableCA :: "(string list) env" where
  "unavailableCA = scriptedCA
     \<lparr>postJSON_account := (\<lambda>k url msg w.
        ((locationHeader [], accountMessage_zero, Some (RemoteError 503 ''try later'')), w))\<rparr>"

text \<open>A CA whose orders never leave \<open>processing\<close>.\<close>

definition stuckCA :: "(string list) env" where
  "stuckCA = scriptedCA
     \<lparr>postJSON_csr := (\<lambda>k url csr w.
        ((orderMessage_zero\<lparr>order_Status := ''processing''\<rparr>, None), w)),
      postAsGet_order := (\<lambda>k url old w. ((old\<lparr>order_Status := ''processing''\<rparr>, None), w))\<rparr>"

text \<open>A CA that can decode an old certificate for renewal.\<close>

definition oldCertificate :: "string list \<Rightarrow> x509Certificate" where
  "oldCertificate names =
     \<lparr>IsCA = False, cert_CommonName = ''example.com'', cert_DNSNames = names\<rparr>"

definition renewalCA :: "string list \<Rightarrow> (string list) env" where
  "renewalCA names = scriptedCA\<lparr>parsePEMBundle := (\<lambda>b. Inr [oldCertificate names])\<rparr>"

definition exampleClient :: "'w solvers \<Rightarrow> 'w Client" where
  "exampleClient slv =
     \<lparr>directory = \<lparr>NewAccountURL = ''https://ca/new-acct'', NewOrderURL = ''https://ca/new-order''\<rparr>,
      user = Some \<lparr>user_Email = ''admin@example.com'', user_Registration = None\<rparr>,
      keyType = ''P256'',
      solvers = slv\<rparr>"

definition noSolvers :: "'w solvers" where
  "noSolvers challengeType = None"

definition start :: "'w \<Rightarrow> 'w exec" where
  "start w = \<lparr>world = w, kid = [], calls = []\<rparr>"

text \<open>
  A pending authorization with one \<open>dns-01\<close> challenge, a valid one for another
  domain, and a solver with all three capabilities whose \<open>Solve\<close> fails.
\<close>

definition dnsChallenge :: challenge where
  "dnsChallenge = \<lparr>chlg_Type = ''dns-01'', chlg_URL = ''https://ca/chall/1'',
     chlg_Status = ''pending'', chlg_Token = ''token''\<rparr>"

definition pendingAuthz :: authorization where
  "pendingAuthz = \<lparr>authz_Status = ''pending'',
     authz_Identifier = \<lparr>id_Type = ''dns'', id_Value = ''example.com''\<rparr>,
     authz_Challenges = [dnsChallenge]\<rparr>"

definition validAuthz :: authorization where
  "validAuthz = \<lparr>authz_Status = ''valid'',
     authz_Identifier = \<lparr>id_Type = ''dns'', id_Value = ''www.example.com''\<rparr>,
     authz_Challenges = [dnsChallenge]\<rparr>"

definition failingSolver :: "'w solver" where
  "failingSolver =
     \<lparr>Solve = (\<lambda>chlng domain w. (Some (Err ''validation failed''), w)),
      PreSolve = Some (\<lambda>chlng domain w. (None, w)),
      CleanUp = Some (\<lambda>chlng domain w. (None, w))\<rparr>"

definition dnsOnly :: "'w solver \<Rightarrow> 'w solvers" where
  "dnsOnly solvr challengeType = (if challengeType = ''dns-01'' then Some solvr else None)"

definition oldResource :: CertificateResource where
  "oldResource = CertificateResource_zero\<lparr>Domain := ''example.com'', Certificate := ''OLD''\<rparr>"

definition exampleCsr :: CertificateRequest where
  "exampleCsr = \<lparr>csr_CommonName = ''example.com'',
     csr_DNSNames = [''example.com'', ''www.example.com'', ''www.example.com''],
     csr_Raw = ''RAW''\<rparr>"

definition exampleOrder :: orderResource where
  "exampleOrder =
     \<lparr>res_URL = ''https://ca/order/1'',
      res_Domains = [''example.com''],
      res_orderMessage = orderMessage_zero
        \<lparr>order_Status := ''ready'',
         order_Identifiers := [\<lparr>id_Type = ''dns'', id_Value = ''example.com''\<rparr>],
         order_Finalize := ''https://ca/finalize/1''\<rparr>\<rparr>"

section \<open>Facts about the model\<close>

text \<open>
  A body within the limit is kept whole. The comparison is on integers so that the
  limit is never counted out in unary when a run is evaluated.
\<close>

lemma limitedBody_code [code]:
  "limitedBody body = (if int (length body) \<le> 1048576 then body else take maxBodySize body)"
  by (simp add: limitedBody_def maxBodySize_def)

lemma invoke_calls: "invoke ev f s = (r, s') \<Longrightarrow> calls s' = calls s @ [ev]"
  by (auto simp: invoke_def split: prod.splits)

lemma submittedIdentifiers_append:
  "submittedIdentifiers (evs @ evs') = submittedIdentifiers evs @ submittedIdentifiers evs'"
  by (induction evs rule: submittedIdentifiers.induct) simp_all

lemma csrCommonNames_append:
  "csrCommonNames (evs @ evs') = csrCommonNames evs @ csrCommonNames evs'"
  by (induction evs rule: csrCommonNames.induct) simp_all

lemma createOrder_calls:
  "calls (snd (createOrderForIdentifiers env c domains s)) =
     calls s @ [PostJSON (NewOrderURL (directory c))
       (OrderPayload (orderMessage_zero
          \<lparr>order_Identifiers := map (\<lambda>domain. \<lparr>id_Type = ''dns'', id_Value = domain\<rparr>) domains\<rparr>))]"
  by (auto simp: createOrderForIdentifiers_def Let_def split: prod.splits option.splits
        dest: invoke_calls)

subsection \<open>The selection loop and the solver calls\<close>

lemma selectLoop_skip:
  "authz_Status a = statusValid \<Longrightarrow>
   selectLoop slv (filter (\<lambda>x. x \<noteq> a) authzs) acc f = selectLoop slv authzs acc f"
  by (induction authzs arbitrary: acc f) (auto split: prod.splits option.splits)

lemma selectLoop_not_valid:
  "selectLoop slv authzs acc f = (sel, f') \<Longrightarrow>
   \<forall>it \<in> set acc. authz_Status (sel_authz it) \<noteq> statusValid \<Longrightarrow>
   \<forall>it \<in> set sel. authz_Status (sel_authz it) \<noteq> statusValid"
proof (induction authzs arbitrary: acc f)
  case Nil
  then show ?case by simp
next
  case (Cons a authzs)
  show ?case
  proof (cases "authz_Status a = statusValid")
    case True
    with Cons show ?thesis by simp
  next
    case False
    obtain i r where c: "chooseSolver slv a (domainOf a) = (i, r)" by force
    show ?thesis
    proof (cases r)
      case None
      with Cons.prems False c show ?thesis
        by (intro Cons.IH[of acc "AList.update (domainOf a)
              (Err (''['' @ domainOf a @ ''] acme: Could not determine solvers'')) f"]) auto
    next
      case (Some solvr)
      with Cons.prems False c show ?thesis
        by (intro Cons.IH[of "acc @ [\<lparr>sel_authz = a, sel_challengeIndex = i, sel_solver = solvr\<rparr>]" f])
           auto
    qed
  qed
qed

lemma preSolveLoop_calls:
  "\<forall>it \<in> set items. sel_authz it \<noteq> a \<Longrightarrow>
   solverCallsFor a (calls (snd (preSolveLoop items f s))) = solverCallsFor a (calls s)"
  by (induction items arbitrary: f s)
     (auto simp: Let_def solverCallsFor_def split: option.splits prod.splits dest!: invoke_calls)

lemma solveLoop_calls:
  "\<forall>it \<in> set items. sel_authz it \<noteq> a \<Longrightarrow>
   solverCallsFor a (calls (snd (solveLoop items f s))) = solverCallsFor a (calls s)"
  by (induction items arbitrary: f s)
     (auto simp: Let_def solverCallsFor_def split: option.splits prod.splits dest!: invoke_calls)

lemma cleanUpLoop_calls:
  "\<forall>it \<in> set items. sel_authz it \<noteq> a \<Longrightarrow>
   solverCallsFor a (calls (cleanUpLoop items f s)) = solverCallsFor a (calls s)"
  by (induction items arbitrary: f s)
     (auto simp: Let_def solverCallsFor_def split: option.splits prod.splits dest!: invoke_calls)

subsection \<open>Polling\<close>

lemma checkCertResponse_not_terminal:
  "order_Status order \<noteq> statusValid \<Longrightarrow> order_Status order \<noteq> statusInvalid \<Longrightarrow>
   checkCertResponse env order certRes bundle s = Some ((False, None), certRes, s)"
  by (simp add: checkCertResponse_def)

lemma pollLoop_times_out:
  assumes "\<forall>k url old w. snd (fst (postAsGet_order env k url old w)) = None
       \<and> order_Status (fst (fst (postAsGet_order env k url old w))) \<noteq> statusValid
       \<and> order_Status (fst (fst (postAsGet_order env k url old w))) \<noteq> statusInvalid"
  shows "\<exists>s'. pollLoop env order bundle (replicate n RetryTick @ StopTimer # rest) retOrder certRes s =
           Some ((None, Some (Err ''certificate polling timed out'')), s')
         \<and> calls s' = calls s @ replicate n (PostAsGet (res_URL order))"
proof (induction n arbitrary: retOrder s)
  case 0
  show ?case by simp
next
  case (Suc n)
  obtain om err w' where p:
    "postAsGet_order env (kid s) (res_URL order) retOrder (world s) = ((om, err), w')"
    by (metis surj_pair)
  from assms [rule_format, of "kid s" "res_URL order" retOrder "world s"] p
  have e: "err = None" and nv: "order_Status om \<noteq> statusValid"
    and ni: "order_Status om \<noteq> statusInvalid"
    by simp_all
  let ?s1 = "s\<lparr>world := w', calls := calls s @ [PostAsGet (res_URL order)]\<rparr>"
  from Suc.IH [of om ?s1] obtain s' where
    r: "pollLoop env order bundle (replicate n RetryTick @ StopTimer # rest) om certRes ?s1 =
          Some ((None, Some (Err ''certificate polling timed out'')), s')"
    and c: "calls s' = calls ?s1 @ replicate n (PostAsGet (res_URL order))"
    by blast
  have "pollLoop env order bundle (replicate (Suc n) RetryTick @ StopTimer # rest) retOrder certRes s =
      Some ((None, Some (Err ''certificate polling timed out'')), s')"
    using p e r by (simp add: invoke_def checkCertResponse_not_terminal [OF nv ni])
  moreover have "calls s' = calls s @ replicate (Suc n) (PostAsGet (res_URL order))"
    using c by (simp add: replicate_append_same)
  ultimately show ?case by blast
qed

subsection \<open>Where certificate requests are generated\<close>

lemma invoke_csrCommonNames:
  "invoke ev f s = (r, s') \<Longrightarrow>
   csrCommonNames (calls s') = csrCommonNames (calls s) @ csrCommonNames [ev]"
  by (simp add: invoke_calls csrCommonNames_append)

lemma getIssuerCertificate_names:
  "csrCommonNames (calls (snd (getIssuerCertificate env url s))) = csrCommonNames (calls s)"
  by (auto simp: getIssuerCertificate_def Let_def
        split: prod.splits sum.splits option.splits dest!: invoke_csrCommonNames)

lemma checkCertResponse_Domain:
  "checkCertResponse env order certRes b s = Some (r, certRes', s') \<Longrightarrow>
   Domain certRes' = Domain certRes"
  by (auto simp: checkCertResponse_def Let_def
        split: if_splits sum.splits option.splits prod.splits)

lemma checkCertResponse_state:
  assumes "checkCertResponse env order certRes b s = Some (r, certRes', s')"
  shows "s' = s
     \<or> s' = snd (invoke (PostAsGet (order_Certificate order))
                (postAsGet_raw env (kid s) (order_Certificate order)) s)
     \<or> (\<exists>link. s' = snd (getIssuerCertificate env link
            (snd (invoke (PostAsGet (order_Certificate order))
                (postAsGet_raw env (kid s) (order_Certificate order)) s))))"
proof (cases "order_Status order = statusValid")
  case False
  with assms show ?thesis
    by (simp add: checkCertResponse_def split: if_splits)
next
  case True
  obtain x s1 where i: "invoke (PostAsGet (order_Certificate order))
      (postAsGet_raw env (kid s) (order_Certificate order)) s = (x, s1)"
    by force
  have "s' = s1 \<or> (\<exists>link. s' = snd (getIssuerCertificate env link s1))"
    using assms True i
    by (simp add: checkCertResponse_def Let_def
          split: sum.splits option.splits prod.splits) (metis snd_conv)+
  with i show ?thesis by simp
qed

lemma checkCertResponse_keeps:
  assumes "checkCertResponse env order certRes b s = Some (r, certRes', s')"
  shows "Domain certRes' = Domain certRes
     \<and> csrCommonNames (calls s') = csrCommonNames (calls s)"
proof -
  obtain x s1 where i: "invoke (PostAsGet (order_Certificate order))
      (postAsGet_raw env (kid s) (order_Certificate order)) s = (x, s1)"
    by force
  have n1: "csrCommonNames (calls s1) = csrCommonNames (calls s)"
    using invoke_csrCommonNames [OF i] by simp
  from checkCertResponse_state [OF assms] i
  have "s' = s \<or> s' = s1 \<or> (\<exists>link. s' = snd (getIssuerCertificate env link s1))"
    by simp
  then have "csrCommonNames (calls s') = csrCommonNames (calls s)"
  proof (elim disjE exE)
    assume "s' = s"
    then show ?thesis by simp
  next
    assume "s' = s1"
    with n1 show ?thesis by simp
  next
    fix link
    assume "s' = snd (getIssuerCertificate env link s1)"
    with n1 getIssuerCertificate_names [of env link s1] show ?thesis by simp
  qed
  with checkCertResponse_Domain [OF assms] show ?thesis by simp
qed

lemma pollLoop_keeps:
  "pollLoop env order b sched retOrder certRes s = Some ((cert, err), s') \<Longrightarrow>
   (\<forall>cr. cert = Some cr \<longrightarrow> Domain cr = Domain certRes)
   \<and> csrCommonNames (calls s') = csrCommonNames (calls s)"
proof (induction sched arbitrary: retOrder certRes s)
  case Nil
  then show ?case by simp
next
  case (Cons ev sched)
  show ?case
  proof (cases ev)
    case StopTimer
    with Cons.prems show ?thesis by simp
  next
    case RetryTick
    obtain retOrder' e s1 where i: "invoke (PostAsGet (res_URL order))
        (postAsGet_order env (kid s) (res_URL order) retOrder) s = ((retOrder', e), s1)"
      by (metis surj_pair)
    have n1: "csrCommonNames (calls s1) = csrCommonNames (calls s)"
      using invoke_csrCommonNames [OF i] by simp
    show ?thesis
    proof (cases e)
      case (Some perr)
      with Cons.prems RetryTick i have "cert = None" and "s' = s1" by simp_all
      with n1 show ?thesis by simp
    next
      case None
      show ?thesis
      proof (cases "checkCertResponse env retOrder' certRes b s1")
        case cknone: None
        with Cons.prems RetryTick i None show ?thesis by simp
      next
        case (Some res)
        obtain ready cerr certRes' s2 where res: "res = ((ready, cerr), certRes', s2)"
          by (metis surj_pair)
        note ck = Some [unfolded res]
        note k = checkCertResponse_keeps [OF ck]
        show ?thesis
        proof (cases cerr)
          case (Some perr)
          with Cons.prems RetryTick i None ck have "cert = None" and "s' = s2" by simp_all
          with k n1 show ?thesis by simp
        next
          case cnone: None
          show ?thesis
          proof (cases ready)
            case True
            with Cons.prems RetryTick i None ck cnone
            have "cert = Some certRes'" and "s' = s2" by simp_all
            with k n1 show ?thesis by simp
          next
            case False
            with Cons.prems RetryTick i None ck cnone
            have "pollLoop env order b sched retOrder' certRes' s2 = Some ((cert, err), s')"
              by simp
            note ih = Cons.IH [OF this]
            have "csrCommonNames (calls s') = csrCommonNames (calls s2)"
              using ih by blast
            also have "\<dots> = csrCommonNames (calls s1)"
              using k by blast
            also have "\<dots> = csrCommonNames (calls s)"
              by (rule n1)
            finally have names: "csrCommonNames (calls s') = csrCommonNames (calls s)" .
            have "\<forall>cr. cert = Some cr \<longrightarrow> Domain cr = Domain certRes"
            proof (intro allI impI)
              fix cr
              assume "cert = Some cr"
              with ih have "Domain cr = Domain certRes'" by blast
              also have "\<dots> = Domain certRes" using k by blast
              finally show "Domain cr = Domain certRes" .
            qed
            with names show ?thesis by blast
          qed
        qed
      qed
    qed
  qed
qed

lemma requestCertificateForCsr_keeps:
  assumes "requestCertificateForCsr env c order b csr privateKeyPem sched s = Some ((cert, err), s')"
  shows "(\<forall>cr. cert = Some cr \<longrightarrow> Domain cr = hd (res_Domains order))
     \<and> csrCommonNames (calls s') = csrCommonNames (calls s)"
proof (cases "res_Domains order")
  case Nil
  with assms show ?thesis by (simp add: requestCertificateForCsr_def)
next
  case (Cons commonName others)
  let ?url = "order_Finalize (res_orderMessage order)"
  let ?csr = "base64_RawURLEncoding env csr"
  obtain retOrder e s1 where i: "invoke (PostJSON ?url (CsrPayload ?csr))
      (postJSON_csr env (kid s) ?url ?csr) s = ((retOrder, e), s1)"
    by (metis surj_pair)
  have n1: "csrCommonNames (calls s1) = csrCommonNames (calls s)"
    using invoke_csrCommonNames [OF i] by simp
  let ?certRes = "CertificateResource_zero
        \<lparr>Domain := commonName, CertURL := order_Certificate retOrder, PrivateKey := privateKeyPem\<rparr>"
  have d0: "Domain ?certRes = commonName" by simp
  note run = assms [unfolded requestCertificateForCsr_def Cons Let_def list.case i prod.case]
  show ?thesis
  proof (cases e)
    case (Some perr)
    with run have "cert = None" and "s' = s1" by simp_all
    with n1 show ?thesis by simp
  next
    case None
    show ?thesis
    proof (cases "order_Status retOrder = statusInvalid")
      case True
      with run None have "cert = None" and "s' = s1" by simp_all
      with n1 show ?thesis by simp
    next
      case notInvalid: False
      show ?thesis
      proof (cases "order_Status retOrder = statusValid")
        case False
        with run None notInvalid
        have "pollLoop env order b sched retOrder ?certRes s1 = Some ((cert, err), s')"
          by simp
        from pollLoop_keeps [OF this] n1 Cons show ?thesis by simp
      next
        case True
        show ?thesis
        proof (cases "checkCertResponse env retOrder ?certRes b s1")
          case cknone: None
          with run None notInvalid True show ?thesis by simp
        next
          case (Some res)
          obtain ok cerr certRes' s2 where res: "res = ((ok, cerr), certRes', s2)"
            by (metis surj_pair)
          note ck = Some [unfolded res]
          note k = checkCertResponse_keeps [OF ck]
          have n2: "csrCommonNames (calls s2) = csrCommonNames (calls s)"
            using k n1 by simp
          have d2: "Domain certRes' = commonName"
            using k by simp
          show ?thesis
          proof (cases cerr)
            case (Some perr)
            with run None notInvalid True ck have "cert = None" and "s' = s2" by simp_all
            with n2 show ?thesis by simp
          next
            case cnone: None
            show ?thesis
            proof (cases ok)
              case okT: True
              with run None notInvalid True ck cnone
              have "cert = Some certRes'" and "s' = s2" by simp_all
              with n2 d2 Cons show ?thesis by simp
            next
              case okF: False
              with run None notInvalid True ck cnone
              have "pollLoop env order b sched retOrder certRes' s2 = Some ((cert, err), s')"
                by simp
              from pollLoop_keeps [OF this] n2 d2 Cons show ?thesis by simp
            qed
          qed
        qed
      qed
    qed
  qed
qed

lemma invoke_result:
  "invoke ev f s = (r, s') \<Longrightarrow> fst (f (world s)) = r"
  by (auto simp: invoke_def split: prod.splits)

lemma requestCertificateForOrder_names:
  assumes "requestCertificateForOrder env c order b privKey mustStaple sched s = Some ((cert, err), s')"
  shows "(\<forall>cr. cert = Some cr \<longrightarrow> Domain cr = hd (res_Domains order))
     \<and> (csrCommonNames (calls s') = csrCommonNames (calls s) @ [hd (res_Domains order)]
        \<or> (csrCommonNames (calls s') = csrCommonNames (calls s) \<and> cert = None \<and> privKey = None
            \<and> (\<exists>e. fst (generatePrivateKey env (keyType c) (world s)) = Inl e \<and> err = Some e)))"
proof -
  obtain k s1 where key: "(case privKey of
        Some key \<Rightarrow> (Inr key, s)
      | None \<Rightarrow> invoke GeneratePrivateKey (generatePrivateKey env (keyType c)) s) = (k, s1)"
    by force
  have n1: "csrCommonNames (calls s1) = csrCommonNames (calls s)"
  proof (cases privKey)
    case None
    with key invoke_csrCommonNames [of GeneratePrivateKey "generatePrivateKey env (keyType c)" s k s1]
    show ?thesis by simp
  next
    case (Some key')
    with key show ?thesis by simp
  qed
  note run = assms [unfolded requestCertificateForOrder_def key prod.case]
  show ?thesis
  proof (cases k)
    case (Inl perr)
    with run have r: "cert = None" "err = Some perr" "s' = s1" by simp_all
    have pk: "privKey = None"
    proof (cases privKey)
      case None
      then show ?thesis .
    next
      case (Some key')
      with key Inl show ?thesis by simp
    qed
    with key Inl have "invoke GeneratePrivateKey (generatePrivateKey env (keyType c)) s = (Inl perr, s1)"
      by simp
    then have "fst (generatePrivateKey env (keyType c) (world s)) = Inl perr"
      by (rule invoke_result)
    with r pk n1 show ?thesis by simp
  next
    case (Inr pk)
    show ?thesis
    proof (cases "res_Domains order")
      case Nil
      with run Inr show ?thesis by simp
    next
      case (Cons commonName others)
      let ?san = "commonName # map id_Value
          (filter (\<lambda>auth. id_Value auth \<noteq> commonName) (order_Identifiers (res_orderMessage order)))"
      obtain g s2 where gen: "invoke (GenerateCsr commonName ?san mustStaple)
          (generateCsr env pk commonName ?san mustStaple) s1 = (g, s2)"
        by force
      have n2: "csrCommonNames (calls s2) = csrCommonNames (calls s) @ [commonName]"
        using invoke_csrCommonNames [OF gen] n1 by simp
      note run' = run [unfolded Inr sum.case Cons list.case Let_def gen prod.case]
      show ?thesis
      proof (cases g)
        case (Inl perr)
        with run' have "cert = None" and "s' = s2" by simp_all
        with n2 Cons show ?thesis by simp
      next
        case (Inr csr)
        with run' have "requestCertificateForCsr env c order b csr (Some (pemEncode_key env pk))
            sched s2 = Some ((cert, err), s')"
          by simp
        from requestCertificateForCsr_keeps [OF this] n2 Cons show ?thesis by simp
      qed
    qed
  qed
qed

lemma fetchAuthz_names:
  "csrCommonNames (calls (snd (fetchAuthz env url s))) = csrCommonNames (calls s)"
  by (auto simp: fetchAuthz_def split: prod.splits option.splits dest!: invoke_csrCommonNames)

lemma launchLoop_names:
  "csrCommonNames (calls (snd (launchLoop env urls s))) = csrCommonNames (calls s)"
proof (induction urls arbitrary: s)
  case Nil
  show ?case by simp
next
  case (Cons url urls)
  obtain m s1 where f: "fetchAuthz env url s = (m, s1)" by force
  obtain ms s2 where l: "launchLoop env urls s1 = (ms, s2)" by force
  from Cons.IH [of s1] l have "csrCommonNames (calls s2) = csrCommonNames (calls s1)" by simp
  moreover from fetchAuthz_names [of env url s] f
  have "csrCommonNames (calls s1) = csrCommonNames (calls s)" by simp
  ultimately show ?case using f l by simp
qed

lemma getAuthzForOrder_names:
  "getAuthzForOrder env c order s = Some (r, s') \<Longrightarrow>
   csrCommonNames (calls s') = csrCommonNames (calls s)"
  using launchLoop_names [of env "order_Authorizations (res_orderMessage order)" s]
  by (auto simp: getAuthzForOrder_def split: prod.splits if_splits)

lemma preSolveLoop_names:
  "csrCommonNames (calls (snd (preSolveLoop items f s))) = csrCommonNames (calls s)"
  by (induction items arbitrary: f s)
     (auto simp: Let_def split: option.splits prod.splits dest!: invoke_csrCommonNames)

lemma solveLoop_names:
  "csrCommonNames (calls (snd (solveLoop items f s))) = csrCommonNames (calls s)"
  by (induction items arbitrary: f s)
     (auto simp: Let_def split: option.splits prod.splits dest!: invoke_csrCommonNames)

lemma cleanUpLoop_names:
  "csrCommonNames (calls (cleanUpLoop items f s)) = csrCommonNames (calls s)"
  by (induction items arbitrary: f s)
     (auto simp: Let_def split: option.splits prod.splits dest!: invoke_csrCommonNames)

lemma solveChallengeForAuthz_names:
  "csrCommonNames (calls (snd (solveChallengeForAuthz slv authzs s))) = csrCommonNames (calls s)"
proof -
  obtain sel f0 where a: "selectLoop slv authzs [] [] = (sel, f0)" by force
  obtain f1 s1 where p: "preSolveLoop sel f0 s = (f1, s1)" by force
  obtain f2 s2 where q: "solveLoop sel f1 s1 = (f2, s2)" by force
  have "csrCommonNames (calls (cleanUpLoop sel f2 s2)) = csrCommonNames (calls s2)"
    by (rule cleanUpLoop_names)
  also have "\<dots> = csrCommonNames (calls s1)"
    using solveLoop_names [of sel f1 s1] q by simp
  also have "\<dots> = csrCommonNames (calls s)"
    using preSolveLoop_names [of sel f0 s] p by simp
  finally show ?thesis
    by (simp add: solveChallengeForAuthz_def a p q)
qed

lemma createOrder_names:
  "csrCommonNames (calls (snd (createOrderForIdentifiers env c domains s))) =
     csrCommonNames (calls s)"
  by (simp add: createOrder_calls csrCommonNames_append)

lemma createOrder_Domains:
  "createOrderForIdentifiers env c domains s = ((order, None), s1) \<Longrightarrow> res_Domains order = domains"
  by (auto simp: createOrderForIdentifiers_def Let_def split: prod.splits option.splits)

lemma ObtainCertificate_names:
  assumes "ObtainCertificate env c domains b privKey mustStaple sched s = Some ((cert, err), s')"
    and "domains \<noteq> []"
  shows "(\<forall>cr. cert = Some cr \<longrightarrow>
            Domain cr = hd domains
            \<and> csrCommonNames (calls s') = csrCommonNames (calls s) @ [hd domains])
     \<and> (csrCommonNames (calls s') = csrCommonNames (calls s)
        \<or> csrCommonNames (calls s') = csrCommonNames (calls s) @ [hd domains])"
proof -
  obtain order e1 s1 where co: "createOrderForIdentifiers env c domains s = ((order, e1), s1)"
    by (metis surj_pair)
  have n1: "csrCommonNames (calls s1) = csrCommonNames (calls s)"
    using createOrder_names [of env c domains s] co by simp
  note run = assms(1) [unfolded ObtainCertificate_def co prod.case]
  show ?thesis
  proof (cases e1)
    case (Some perr)
    with run assms(2) have "cert = None" and "s' = s1" by simp_all
    with n1 show ?thesis by simp
  next
    case None
    have dom: "res_Domains order = domains"
      using createOrder_Domains co None by simp
    show ?thesis
    proof (cases "getAuthzForOrder env c order s1")
      case ganone: None
      with run assms(2) None show ?thesis by simp
    next
      case (Some ga)
      obtain authz e2 s2 where ga: "ga = ((authz, e2), s2)" by (metis surj_pair)
      note g = Some [unfolded ga]
      have n2: "csrCommonNames (calls s2) = csrCommonNames (calls s)"
        using getAuthzForOrder_names [OF g] n1 by simp
      show ?thesis
      proof (cases e2)
        case (Some oerr)
        with run assms(2) None g have "cert = None" and "s' = s2" by simp_all
        with n2 show ?thesis by simp
      next
        case e2none: None
        obtain e3 s3 where sv: "solveChallengeForAuthz (solvers c) authz s2 = (e3, s3)" by force
        have n3: "csrCommonNames (calls s3) = csrCommonNames (calls s)"
          using solveChallengeForAuthz_names [of "solvers c" authz s2] sv n2 by simp
        show ?thesis
        proof (cases e3)
          case (Some oerr)
          with run assms(2) None g e2none sv have "cert = None" and "s' = s3" by simp_all
          with n3 show ?thesis by simp
        next
          case e3none: None
          show ?thesis
          proof (cases "requestCertificateForOrder env c order b privKey mustStaple sched s3")
            case rqnone: None
            with run assms(2) None g e2none sv e3none show ?thesis by simp
          next
            case (Some rq)
            obtain cert4 e4 s4 where rq: "rq = ((cert4, e4), s4)" by (metis surj_pair)
            note r = Some [unfolded rq]
            from run assms(2) None g e2none sv e3none r
            have "cert = cert4" and "s' = s4"
              by (simp_all add: Let_def split: if_splits)
            note eq = this
            note rn = requestCertificateForOrder_names [OF r, unfolded dom n3]
            from rn have d: "\<forall>cr. cert4 = Some cr \<longrightarrow> Domain cr = hd domains"
              by blast
            from rn have e: "csrCommonNames (calls s4) = csrCommonNames (calls s) @ [hd domains]
                \<or> (csrCommonNames (calls s4) = csrCommonNames (calls s) \<and> cert4 = None)"
              by blast
            from d e eq show ?thesis by auto
          qed
        qed
      qed
    qed
  qed
qed

subsection \<open>The errors of the aggregating functions\<close>

lemma update_not_empty: "AList.update k v al \<noteq> []"
  by (cases al) auto

lemma failAllLoop_not_empty:
  "failures \<noteq> [] \<or> authz \<noteq> [] \<Longrightarrow> failAllLoop authz e failures \<noteq> []"
proof (induction authz arbitrary: failures)
  case Nil
  then show ?case by simp
next
  case (Cons a authz)
  have "AList.update (domainOf a) e failures \<noteq> []" by (rule update_not_empty)
  then show ?case using Cons.IH by simp
qed

lemma requestFailures_empty:
  "requestFailures authz err = [] \<longleftrightarrow> err = None \<or> authz = []"
proof (cases err)
  case None
  then show ?thesis by (simp add: requestFailures_def)
next
  case (Some e)
  show ?thesis
  proof (cases authz)
    case Nil
    with Some show ?thesis by (simp add: requestFailures_def)
  next
    case (Cons a rest)
    with Some failAllLoop_not_empty [of "[]" authz e] show ?thesis
      by (simp add: requestFailures_def)
  qed
qed

lemma solveChallengeForAuthz_error:
  "fst (solveChallengeForAuthz slv authzs s) =
     (if solveFailures slv authzs s = [] then None
      else Some (ObtainError (solveFailures slv authzs s)))"
  by (simp add: solveChallengeForAuthz_def solveFailures_def split: prod.splits)

lemma getAuthzForOrder_error:
  "getAuthzForOrder env c order s = Some ((r, err), s') \<Longrightarrow>
   err = (if fetchFailures env order s = [] then None
          else Some (ObtainError (fetchFailures env order s)))"
  by (auto simp: getAuthzForOrder_def fetchFailures_def split: prod.splits if_splits)

lemma ObtainCertificate_error:
  assumes "ObtainCertificate env c domains b privKey mustStaple sched s = Some ((cert, err), s')"
  shows "err \<noteq> Some (ObtainError [])"
proof (cases "length domains = 0")
  case True
  with assms show ?thesis by (auto simp: ObtainCertificate_def)
next
  case nonempty: False
  obtain order e1 s1 where co: "createOrderForIdentifiers env c domains s = ((order, e1), s1)"
    by (metis surj_pair)
  note run = assms [unfolded ObtainCertificate_def co prod.case]
  show ?thesis
  proof (cases e1)
    case (Some perr)
    with run nonempty show ?thesis by auto
  next
    case None
    show ?thesis
    proof (cases "getAuthzForOrder env c order s1")
      case ganone: None
      with run nonempty None show ?thesis by simp
    next
      case (Some ga)
      obtain authz e2 s2 where ga: "ga = ((authz, e2), s2)" by (metis surj_pair)
      note g = Some [unfolded ga]
      show ?thesis
      proof (cases e2)
        case (Some oerr)
        with run nonempty None g have "err = e2" by simp
        with getAuthzForOrder_error [OF g] show ?thesis by (simp split: if_splits)
      next
        case e2none: None
        obtain e3 s3 where sv: "solveChallengeForAuthz (solvers c) authz s2 = (e3, s3)" by force
        show ?thesis
        proof (cases e3)
          case (Some oerr)
          with run nonempty None g e2none sv have "err = e3" by simp
          with solveChallengeForAuthz_error [of "solvers c" authz s2] sv show ?thesis
            by (simp split: if_splits)
        next
          case e3none: None
          show ?thesis
          proof (cases "requestCertificateForOrder env c order b privKey mustStaple sched s3")
            case rqnone: None
            with run nonempty None g e2none sv e3none show ?thesis by simp
          next
            case (Some rq)
            obtain cert4 e4 s4 where rq: "rq = ((cert4, e4), s4)" by (metis surj_pair)
            note r = Some [unfolded rq]
            from run nonempty None g e2none sv e3none r show ?thesis
              by (auto simp: Let_def split: if_splits)
          qed
        qed
      qed
    qed
  qed
qed

lemma ObtainCertificateForCSR_error:
  assumes "ObtainCertificateForCSR env c csr b sched s = Some ((cert, err), s')"
  shows "err \<noteq> Some (ObtainError [])"
proof -
  let ?domains = "dnsNamesLoop (csr_DNSNames csr) [csr_CommonName csr]"
  obtain order e1 s1 where co: "createOrderForIdentifiers env c ?domains s = ((order, e1), s1)"
    by (metis surj_pair)
  note run = assms [unfolded ObtainCertificateForCSR_def Let_def co prod.case]
  show ?thesis
  proof (cases e1)
    case (Some perr)
    with run show ?thesis by auto
  next
    case None
    show ?thesis
    proof (cases "getAuthzForOrder env c order s1")
      case ganone: None
      with run None show ?thesis by simp
    next
      case (Some ga)
      obtain authz e2 s2 where ga: "ga = ((authz, e2), s2)" by (metis surj_pair)
      note g = Some [unfolded ga]
      show ?thesis
      proof (cases e2)
        case (Some oerr)
        with run None g have "err = e2" by simp
        with getAuthzForOrder_error [OF g] show ?thesis by (simp split: if_splits)
      next
        case e2none: None
        obtain e3 s3 where sv: "solveChallengeForAuthz (solvers c) authz s2 = (e3, s3)" by force
        show ?thesis
        proof (cases e3)
          case (Some oerr)
          with run None g e2none sv have "err = e3" by simp
          with solveChallengeForAuthz_error [of "solvers c" authz s2] sv show ?thesis
            by (simp split: if_splits)
        next
          case e3none: None
          show ?thesis
          proof (cases "requestCertificateForCsr env c order b (csr_Raw csr) None sched s3")
            case rqnone: None
            with run None g e2none sv e3none show ?thesis by simp
          next
            case (Some rq)
            obtain cert4 e4 s4 where rq: "rq = ((cert4, e4), s4)" by (metis surj_pair)
            note r = Some [unfolded rq]
            from run None g e2none sv e3none r show ?thesis
              by (auto split: if_splits)
          qed
        qed
      qed
    qed
  qed
qed

lemma RenewCertificate_error:
  assumes "RenewCertificate env c old b mustStaple sched s = Some ((cert, err), s')"
  shows "err \<noteq> Some (ObtainError [])"
  using assms ObtainCertificate_error ObtainCertificateForCSR_error
  by (fastforce simp: RenewCertificate_def split: sum.splits list.splits if_splits)

section \<open>The claims\<close>

text \<open>
  C1. The claim: for every selected pair whose solver has the cleanup capability,
  \<open>CleanUp\<close> is invoked after the solve phase even when the pair's \<open>Solve\<close> failed,
  and never for a pair whose domain failed at selection or pre-solve. The code does
  not do the first part. The deferred function, commented "clean all created TXT
  records", skips every pair whose domain is in \<open>failures\<close>, and it reads \<open>failures\<close>
  when the function returns, after the solve loop has added its own failures. Here one
  pending authorization is pre-solved with success, its \<open>Solve\<close> fails, and the log
  ends without a \<open>CleanUp\<close> call.
\<close>

theorem cleanup_skipped_after_failed_solve:
  "solveChallengeForAuthz (dnsOnly failingSolver) [pendingAuthz] (start ()) =
     (Some (ObtainError [(''example.com'', Err ''validation failed'')]),
      \<lparr>world = (), kid = [], calls = [PreSolveCall pendingAuthz 0, SolveCall pendingAuthz 0]\<rparr>)"
  by code_simp

text \<open>
  C2. The claim: an order status \<open>invalid\<close> in the response to the finalize request,
  or in a later poll, fails at once with a non-nil error and no certificate. For the
  finalize response the code returns \<open>nil, err\<close> where \<open>err\<close> is the nil error of the
  request that just succeeded: no certificate and no error, for
  \<open>requestCertificateForCsr\<close> and, through it, for \<open>ObtainCertificate\<close>.
\<close>

theorem invalid_finalize_returns_nil_error:
  "requestCertificateForCsr scriptedCA (exampleClient noSolvers) exampleOrder False ''CSR'' None
       [RetryTick, StopTimer] (start [''invalid'']) =
     Some ((None, None),
       \<lparr>world = [], kid = [], calls = [PostJSON ''https://ca/finalize/1'' (CsrPayload ''CSR'')]\<rparr>)
   \<and> map_option fst (ObtainCertificate scriptedCA (exampleClient noSolvers) [''example.com'']
       False None False [RetryTick, StopTimer] (start [''invalid''])) = Some (None, None)"
  by code_simp

text \<open>
  C3. The claim: order creation deduplicates the domains, so no two identifiers of
  the order are equal. \<open>createOrderForIdentifiers\<close> has no deduplication: a domain
  given twice is submitted twice, and the scripted CA, which echoes the identifiers,
  creates an order that holds it twice.
\<close>

theorem duplicate_identifiers_submitted:
  "submittedIdentifiers (calls (snd (createOrderForIdentifiers scriptedCA (exampleClient noSolvers)
       [''example.com'', ''example.com''] (start [])))) = [[''example.com'', ''example.com'']]
   \<and> \<not> distinct (map id_Value (order_Identifiers (res_orderMessage (fst (fst
       (createOrderForIdentifiers scriptedCA (exampleClient noSolvers)
          [''example.com'', ''example.com''] (start [])))))))"
  by code_simp

text \<open>
  C3, amended. Order creation does not deduplicate: it makes one new-order request
  whose identifiers are, element by element and in the order of the input, the
  domains of the input sequence, each with the type \<open>dns\<close>, duplicates included; so
  the identifiers submitted are pairwise distinct exactly when the input sequence is.
\<close>

theorem identifiers_follow_input:
  "calls (snd (createOrderForIdentifiers env c domains s)) =
     calls s @ [PostJSON (NewOrderURL (directory c))
       (OrderPayload (orderMessage_zero
          \<lparr>order_Identifiers := map (\<lambda>domain. \<lparr>id_Type = ''dns'', id_Value = domain\<rparr>) domains\<rparr>))]
   \<and> (distinct (map (\<lambda>domain. \<lparr>id_Type = ''dns'', id_Value = domain\<rparr>) domains)
        \<longleftrightarrow> distinct domains)
   \<and> submittedIdentifiers (calls (snd (createOrderForIdentifiers env c domains s))) =
       submittedIdentifiers (calls s) @ [domains]
   \<and> (distinct (last (submittedIdentifiers (calls (snd (createOrderForIdentifiers env c domains s)))))
        \<longleftrightarrow> distinct domains)"
proof -
  have "inj_on (\<lambda>domain. \<lparr>id_Type = ''dns'', id_Value = domain\<rparr>) (set domains)"
    by (simp add: inj_on_def)
  then have "distinct (map (\<lambda>domain. \<lparr>id_Type = ''dns'', id_Value = domain\<rparr>) domains)
      \<longleftrightarrow> distinct domains"
    by (simp add: distinct_map)
  then show ?thesis
    by (simp add: createOrder_calls submittedIdentifiers_append comp_def)
qed

text \<open>
  C4. The claim: on a renewal without a preserved CSR the domain list is the common
  name followed by every DNS name of the certificate that differs from it. A
  certificate with the common name \<open>example.com\<close> and the single DNS name
  \<open>other.example.com\<close> is renewed for \<open>example.com\<close> alone: the code looks at the DNS
  names only when there is more than one.
\<close>

theorem single_san_dropped_on_renewal:
  "renewalDomains (oldCertificate [''other.example.com'']) = [''example.com'']
   \<and> ''other.example.com'' \<in> set (cert_DNSNames (oldCertificate [''other.example.com'']))
   \<and> ''other.example.com'' \<noteq> cert_CommonName (oldCertificate [''other.example.com''])
   \<and> map_option (submittedIdentifiers \<circ> calls \<circ> snd)
        (RenewCertificate (renewalCA [''other.example.com'']) (exampleClient noSolvers) oldResource
           False False [RetryTick, StopTimer] (start [''valid''])) = Some [[''example.com'']]"
  by code_simp

text \<open>
  C4, amended. When the bundle decodes to a leading certificate that is not a CA
  certificate, the resource holds no CSR and its private key, if any, parses, the
  renewal is a fresh \<open>ObtainCertificate\<close> over this list: for a certificate with more
  than one DNS name, the common name followed by every DNS name that differs from it;
  for a certificate with at most one DNS name, the common name alone.
\<close>

theorem renewal_domains:
  assumes "parsePEMBundle env (Certificate cert) = Inr (x509Cert # chain)"
    and "\<not> IsCA x509Cert"
    and "CSR cert = []"
    and "reusedPrivateKey env cert = Inr privKey"
  shows "RenewCertificate env c cert bundle mustStaple sched s =
     ObtainCertificate env c
       (if 1 < length (cert_DNSNames x509Cert)
        then cert_CommonName x509Cert #
               filter (\<lambda>name. name \<noteq> cert_CommonName x509Cert) (cert_DNSNames x509Cert)
        else [cert_CommonName x509Cert])
       bundle privKey mustStaple sched s"
  using assms by (simp add: RenewCertificate_def renewalDomains_def)

theorem renewal_domains_witness:
  "parsePEMBundle (renewalCA [''example.com'', ''www.example.com'']) (Certificate oldResource) =
     Inr (oldCertificate [''example.com'', ''www.example.com''] # [])
   \<and> \<not> IsCA (oldCertificate [''example.com'', ''www.example.com''])
   \<and> CSR oldResource = []
   \<and> reusedPrivateKey (renewalCA [''example.com'', ''www.example.com'']) oldResource = Inr None
   \<and> RenewCertificate (renewalCA [''example.com'', ''www.example.com'']) (exampleClient noSolvers)
        oldResource False False [StopTimer] (start [''valid'']) =
      ObtainCertificate (renewalCA [''example.com'', ''www.example.com'']) (exampleClient noSolvers)
        [''example.com'', ''www.example.com''] False None False [StopTimer] (start [''valid''])"
proof -
  have h1: "parsePEMBundle (renewalCA [''example.com'', ''www.example.com'']) (Certificate oldResource) =
     Inr (oldCertificate [''example.com'', ''www.example.com''] # [])"
    by (simp add: renewalCA_def scriptedCA_def)
  have h2: "\<not> IsCA (oldCertificate [''example.com'', ''www.example.com''])"
    by (simp add: oldCertificate_def)
  have h3: "CSR oldResource = []"
    by (simp add: oldResource_def CertificateResource_zero_def)
  have h4: "reusedPrivateKey (renewalCA [''example.com'', ''www.example.com'']) oldResource = Inr None"
    by (simp add: reusedPrivateKey_def oldResource_def CertificateResource_zero_def)
  show ?thesis
    using h1 h2 h3 h4
      renewal_domains [OF h1 h2 h3 h4, of "exampleClient noSolvers" False False "[StopTimer]"
        "start [''valid'']"]
    by (simp add: oldCertificate_def)
qed

text \<open>
  C5. \<open>solveChallengeForAuthz\<close> and \<open>getAuthzForOrder\<close> return a nil error when
  their failure map is empty and the map itself, as an \<open>ObtainError\<close>, when it is
  not. \<open>ObtainCertificate\<close> and \<open>ObtainCertificateForCSR\<close> do the same with the
  failure map of the certificate request once the earlier steps have passed; that map
  is empty exactly when the request returned no error or there is no authorization
  to charge it to. No error returned by \<open>ObtainCertificate\<close>,
  \<open>ObtainCertificateForCSR\<close> or \<open>RenewCertificate\<close> is an \<open>ObtainError\<close> without
  entries.
\<close>

theorem obtain_error_never_empty:
  "fst (solveChallengeForAuthz slv authzs s) =
     (if solveFailures slv authzs s = [] then None
      else Some (ObtainError (solveFailures slv authzs s)))
   \<and> (\<forall>r err s'. getAuthzForOrder env c order s = Some ((r, err), s') \<longrightarrow>
         err = (if fetchFailures env order s = [] then None
                else Some (ObtainError (fetchFailures env order s))))
   \<and> (\<forall>ord s1 authz s2 s3 cert4 err4 s4.
         domains \<noteq> [] \<and>
         createOrderForIdentifiers env c domains s = ((ord, None), s1) \<and>
         getAuthzForOrder env c ord s1 = Some ((authz, None), s2) \<and>
         solveChallengeForAuthz (solvers c) authz s2 = (None, s3) \<and>
         requestCertificateForOrder env c ord bundle privKey mustStaple sched s3 =
           Some ((cert4, err4), s4) \<longrightarrow>
         ObtainCertificate env c domains bundle privKey mustStaple sched s =
           Some ((cert4,
                  if requestFailures authz err4 = [] then None
                  else Some (ObtainError (requestFailures authz err4))), s4))
   \<and> (\<forall>cert err s'.
         ObtainCertificate env c domains bundle privKey mustStaple sched s = Some ((cert, err), s') \<longrightarrow>
         err \<noteq> Some (ObtainError []))
   \<and> (\<forall>cert err s'.
         ObtainCertificateForCSR env c csr bundle sched s = Some ((cert, err), s') \<longrightarrow>
         err \<noteq> Some (ObtainError []))
   \<and> (\<forall>cert err s'.
         RenewCertificate env c old bundle mustStaple sched s = Some ((cert, err), s') \<longrightarrow>
         err \<noteq> Some (ObtainError []))
   \<and> (\<forall>ord s1 authz s2 s3 cert4 err4 s4.
         createOrderForIdentifiers env c
           (dnsNamesLoop (csr_DNSNames csr) [csr_CommonName csr]) s = ((ord, None), s1) \<and>
         getAuthzForOrder env c ord s1 = Some ((authz, None), s2) \<and>
         solveChallengeForAuthz (solvers c) authz s2 = (None, s3) \<and>
         requestCertificateForCsr env c ord bundle (csr_Raw csr) None sched s3 =
           Some ((cert4, err4), s4) \<longrightarrow>
         ObtainCertificateForCSR env c csr bundle sched s =
           Some ((map_option (\<lambda>cr. cr\<lparr>CSR := pemEncode_csr env csr\<rparr>) cert4,
                  if requestFailures authz err4 = [] then None
                  else Some (ObtainError (requestFailures authz err4))), s4))
   \<and> (\<forall>authz err. requestFailures authz err = [] \<longleftrightarrow> err = None \<or> authz = [])"
proof (intro conjI allI impI)
  show "fst (solveChallengeForAuthz slv authzs s) =
     (if solveFailures slv authzs s = [] then None
      else Some (ObtainError (solveFailures slv authzs s)))"
    by (rule solveChallengeForAuthz_error)
next
  fix r err s'
  assume "getAuthzForOrder env c order s = Some ((r, err), s')"
  then show "err = (if fetchFailures env order s = [] then None
      else Some (ObtainError (fetchFailures env order s)))"
    by (rule getAuthzForOrder_error)
next
  fix ord s1 authz s2 s3 cert4 err4 s4
  assume "domains \<noteq> [] \<and>
         createOrderForIdentifiers env c domains s = ((ord, None), s1) \<and>
         getAuthzForOrder env c ord s1 = Some ((authz, None), s2) \<and>
         solveChallengeForAuthz (solvers c) authz s2 = (None, s3) \<and>
         requestCertificateForOrder env c ord bundle privKey mustStaple sched s3 =
           Some ((cert4, err4), s4)"
  then show "ObtainCertificate env c domains bundle privKey mustStaple sched s =
           Some ((cert4,
                  if requestFailures authz err4 = [] then None
                  else Some (ObtainError (requestFailures authz err4))), s4)"
    by (simp add: ObtainCertificate_def Let_def)
next
  fix cert err s'
  assume "ObtainCertificate env c domains bundle privKey mustStaple sched s = Some ((cert, err), s')"
  then show "err \<noteq> Some (ObtainError [])" by (rule ObtainCertificate_error)
next
  fix cert err s'
  assume "ObtainCertificateForCSR env c csr bundle sched s = Some ((cert, err), s')"
  then show "err \<noteq> Some (ObtainError [])" by (rule ObtainCertificateForCSR_error)
next
  fix cert err s'
  assume "RenewCertificate env c old bundle mustStaple sched s = Some ((cert, err), s')"
  then show "err \<noteq> Some (ObtainError [])" by (rule RenewCertificate_error)
next
  fix ord s1 authz s2 s3 cert4 err4 s4
  assume "createOrderForIdentifiers env c
           (dnsNamesLoop (csr_DNSNames csr) [csr_CommonName csr]) s = ((ord, None), s1) \<and>
         getAuthzForOrder env c ord s1 = Some ((authz, None), s2) \<and>
         solveChallengeForAuthz (solvers c) authz s2 = (None, s3) \<and>
         requestCertificateForCsr env c ord bundle (csr_Raw csr) None sched s3 =
           Some ((cert4, err4), s4)"
  then show "ObtainCertificateForCSR env c csr bundle sched s =
           Some ((map_option (\<lambda>cr. cr\<lparr>CSR := pemEncode_csr env csr\<rparr>) cert4,
                  if requestFailures authz err4 = [] then None
                  else Some (ObtainError (requestFailures authz err4))), s4)"
    by (simp add: ObtainCertificateForCSR_def Let_def)
next
  fix authz err
  show "requestFailures authz err = [] \<longleftrightarrow> err = None \<or> authz = []"
    by (rule requestFailures_empty)
qed

theorem obtain_error_never_empty_witness:
  "solveFailures (dnsOnly failingSolver) [pendingAuthz] (start ([] :: string list)) =
       [(''example.com'', Err ''validation failed'')]
   \<and> fst (solveChallengeForAuthz (dnsOnly failingSolver) [pendingAuthz] (start ([] :: string list))) =
       Some (ObtainError [(''example.com'', Err ''validation failed'')])
   \<and> map_option (\<lambda>r. snd (fst r))
        (ObtainCertificate scriptedCA (exampleClient noSolvers) [''example.com'']
           False None False [StopTimer] (start [])) =
       Some (Some (ObtainError [(''example.com'', Err ''certificate polling timed out'')]))
   \<and> Some (ObtainError [(''example.com'', Err ''certificate polling timed out'')]) \<noteq>
       Some (ObtainError [])
   \<and> (\<exists>ord s1 authz s2 s3 cert4 err4 s4.
         createOrderForIdentifiers scriptedCA (exampleClient noSolvers)
           (dnsNamesLoop (csr_DNSNames exampleCsr) [csr_CommonName exampleCsr]) (start []) =
           ((ord, None), s1) \<and>
         getAuthzForOrder scriptedCA (exampleClient noSolvers) ord s1 = Some ((authz, None), s2) \<and>
         solveChallengeForAuthz (solvers (exampleClient noSolvers)) authz s2 = (None, s3) \<and>
         requestCertificateForCsr scriptedCA (exampleClient noSolvers) ord False (csr_Raw exampleCsr)
           None [StopTimer] s3 = Some ((cert4, err4), s4) \<and>
         requestFailures authz err4 =
           [(''example.com'', Err ''certificate polling timed out''),
            (''www.example.com'', Err ''certificate polling timed out'')] \<and>
         ObtainCertificateForCSR scriptedCA (exampleClient noSolvers) exampleCsr False [StopTimer]
           (start []) =
           Some ((map_option (\<lambda>cr. cr\<lparr>CSR := pemEncode_csr scriptedCA exampleCsr\<rparr>) cert4,
                  Some (ObtainError (requestFailures authz err4))), s4))"
proof -
  let ?s = "start ([] :: string list)"
  let ?c = "exampleClient noSolvers :: (string list) Client"
  let ?run = "ObtainCertificate scriptedCA ?c [''example.com''] False None False [StopTimer] ?s"
  let ?timeout = "Some (ObtainError [(''example.com'', Err ''certificate polling timed out'')])"
  have sf: "solveFailures (dnsOnly failingSolver) [pendingAuthz] ?s =
      [(''example.com'', Err ''validation failed'')]"
    by code_simp
  from obtain_error_never_empty [THEN conjunct1, of "dnsOnly failingSolver" "[pendingAuthz]" ?s] sf
  have c1: "fst (solveChallengeForAuthz (dnsOnly failingSolver) [pendingAuthz] ?s) =
      Some (ObtainError [(''example.com'', Err ''validation failed'')])"
    by simp
  have c2: "map_option (\<lambda>r. snd (fst r)) ?run = Some ?timeout"
    by code_simp
  then obtain cert s' where r: "?run = Some ((cert, ?timeout), s')"
    by (cases ?run) auto
  from obtain_error_never_empty
    [THEN conjunct2, THEN conjunct2, THEN conjunct2, THEN conjunct1, rule_format, OF r]
  have c3: "?timeout \<noteq> Some (ObtainError [])" .
  let ?co = "createOrderForIdentifiers scriptedCA ?c
      (dnsNamesLoop (csr_DNSNames exampleCsr) [csr_CommonName exampleCsr]) ?s"
  let ?ord = "fst (fst ?co)"
  let ?s1 = "snd ?co"
  let ?ga = "the (getAuthzForOrder scriptedCA ?c ?ord ?s1)"
  let ?authz = "fst (fst ?ga)"
  let ?s2 = "snd ?ga"
  let ?s3 = "snd (solveChallengeForAuthz (solvers ?c) ?authz ?s2)"
  let ?rq = "the (requestCertificateForCsr scriptedCA ?c ?ord False (csr_Raw exampleCsr)
      None [StopTimer] ?s3)"
  let ?cert4 = "fst (fst ?rq)"
  let ?err4 = "snd (fst ?rq)"
  let ?s4 = "snd ?rq"
  have h1: "?co = ((?ord, None), ?s1)"
    by code_simp
  have h2: "getAuthzForOrder scriptedCA ?c ?ord ?s1 = Some ((?authz, None), ?s2)"
    by code_simp
  have h3: "solveChallengeForAuthz (solvers ?c) ?authz ?s2 = (None, ?s3)"
    by code_simp
  have h4: "requestCertificateForCsr scriptedCA ?c ?ord False (csr_Raw exampleCsr)
      None [StopTimer] ?s3 = Some ((?cert4, ?err4), ?s4)"
    by code_simp
  have h5: "requestFailures ?authz ?err4 =
      [(''example.com'', Err ''certificate polling timed out''),
       (''www.example.com'', Err ''certificate polling timed out'')]"
    by code_simp
  from obtain_error_never_empty
    [THEN conjunct2, THEN conjunct2, THEN conjunct2, THEN conjunct2, THEN conjunct2,
     THEN conjunct2, THEN conjunct1, rule_format, OF conjI [OF h1 conjI [OF h2 conjI [OF h3 h4]]]]
  have c4: "ObtainCertificateForCSR scriptedCA ?c exampleCsr False [StopTimer] ?s =
      Some ((map_option (\<lambda>cr. cr\<lparr>CSR := pemEncode_csr scriptedCA exampleCsr\<rparr>) ?cert4,
             Some (ObtainError (requestFailures ?authz ?err4))), ?s4)"
    by (simp add: h5)
  from h1 h2 h3 h4 h5 c4
  have c5: "\<exists>ord s1 authz s2 s3 cert4 err4 s4.
         createOrderForIdentifiers scriptedCA ?c
           (dnsNamesLoop (csr_DNSNames exampleCsr) [csr_CommonName exampleCsr]) ?s =
           ((ord, None), s1) \<and>
         getAuthzForOrder scriptedCA ?c ord s1 = Some ((authz, None), s2) \<and>
         solveChallengeForAuthz (solvers ?c) authz s2 = (None, s3) \<and>
         requestCertificateForCsr scriptedCA ?c ord False (csr_Raw exampleCsr)
           None [StopTimer] s3 = Some ((cert4, err4), s4) \<and>
         requestFailures authz err4 =
           [(''example.com'', Err ''certificate polling timed out''),
            (''www.example.com'', Err ''certificate polling timed out'')] \<and>
         ObtainCertificateForCSR scriptedCA ?c exampleCsr False [StopTimer] ?s =
           Some ((map_option (\<lambda>cr. cr\<lparr>CSR := pemEncode_csr scriptedCA exampleCsr\<rparr>) cert4,
                  Some (ObtainError (requestFailures authz err4))), s4)"
    by blast
  from sf c1 c2 c3 c5 show ?thesis by blast
qed

text \<open>
  C6. An authorization that is already valid when the coordinator runs gets no
  \<open>PreSolve\<close>, \<open>Solve\<close> or \<open>CleanUp\<close> call, and the coordinator returns the same
  error, hence the same failure map, and leaves the same state as it does on the list
  without that authorization.
\<close>

theorem valid_authorization_skipped:
  assumes "authz_Status a = statusValid"
  shows "solverCallsFor a (calls (snd (solveChallengeForAuthz slv authzs s))) =
           solverCallsFor a (calls s)
     \<and> solveChallengeForAuthz slv authzs s =
         solveChallengeForAuthz slv (filter (\<lambda>x. x \<noteq> a) authzs) s"
proof -
  obtain sel f0 where sel: "selectLoop slv authzs [] [] = (sel, f0)" by force
  have na: "\<forall>it \<in> set sel. sel_authz it \<noteq> a"
    using selectLoop_not_valid[OF sel] assms by auto
  obtain f1 s1 where p: "preSolveLoop sel f0 s = (f1, s1)" by force
  obtain f2 s2 where q: "solveLoop sel f1 s1 = (f2, s2)" by force
  have "solverCallsFor a (calls s1) = solverCallsFor a (calls s)"
    using preSolveLoop_calls[OF na, of f0 s] p by simp
  moreover have "solverCallsFor a (calls s2) = solverCallsFor a (calls s1)"
    using solveLoop_calls[OF na, of f1 s1] q by simp
  moreover have "solverCallsFor a (calls (cleanUpLoop sel f2 s2)) = solverCallsFor a (calls s2)"
    using cleanUpLoop_calls[OF na] by simp
  ultimately have "solverCallsFor a (calls (snd (solveChallengeForAuthz slv authzs s))) =
      solverCallsFor a (calls s)"
    by (simp add: solveChallengeForAuthz_def sel p q)
  moreover have "solveChallengeForAuthz slv authzs s =
      solveChallengeForAuthz slv (filter (\<lambda>x. x \<noteq> a) authzs) s"
    by (simp add: solveChallengeForAuthz_def selectLoop_skip[OF assms])
  ultimately show ?thesis by simp
qed

theorem valid_authorization_skipped_witness:
  "authz_Status validAuthz = statusValid
   \<and> solverCallsFor validAuthz
        (calls (snd (solveChallengeForAuthz (dnsOnly failingSolver) [validAuthz, pendingAuthz]
           (start ())))) = 0
   \<and> solveChallengeForAuthz (dnsOnly failingSolver) [validAuthz, pendingAuthz] (start ()) =
       solveChallengeForAuthz (dnsOnly failingSolver) [pendingAuthz] (start ())"
proof -
  have h: "authz_Status validAuthz = statusValid"
    by (simp add: validAuthz_def statusValid_def)
  have ne: "pendingAuthz \<noteq> validAuthz"
    by (simp add: pendingAuthz_def validAuthz_def)
  note th = valid_authorization_skipped [OF h, of "dnsOnly failingSolver"
      "[validAuthz, pendingAuthz]" "start ()"]
  have c1: "solverCallsFor validAuthz
      (calls (snd (solveChallengeForAuthz (dnsOnly failingSolver) [validAuthz, pendingAuthz]
         (start ())))) = 0"
    using th [THEN conjunct1] by (simp add: start_def solverCallsFor_def)
  have c2: "solveChallengeForAuthz (dnsOnly failingSolver) [validAuthz, pendingAuthz] (start ()) =
      solveChallengeForAuthz (dnsOnly failingSolver) [pendingAuthz] (start ())"
    using th [THEN conjunct2] ne by simp
  from h c1 c2 show ?thesis by blast
qed

text \<open>
  C7. When the new-account request fails with a \<open>RemoteError\<close> of status 409,
  \<open>Register\<close> returns a registration resource whose URI is the \<open>Location\<close> header
  and whose body is the decoded response, with a nil error, and makes that URI the
  account of the transport. Any other error of the request is returned, with no
  resource.
\<close>

theorem conflict_adopts_registration:
  assumes "user cl = Some u"
    and "postJSON_account env (kid s) (NewAccountURL (directory cl))
           (newAccountMessage (user_Email u) tosAgreed) (world s) = ((hdr, serverReg, Some err), w')"
  shows "((\<exists>detail. err = RemoteError 409 detail) \<longrightarrow>
            Register env (Some cl) tosAgreed s =
              ((Some \<lparr>URI = hdrGet hdr ''Location'', Body = serverReg\<rparr>, None),
               s\<lparr>world := w',
                  calls := calls s @ [PostJSON (NewAccountURL (directory cl))
                    (AccountPayload (newAccountMessage (user_Email u) tosAgreed))],
                  kid := hdrGet hdr ''Location''\<rparr>))
       \<and> ((\<forall>detail. err \<noteq> RemoteError 409 detail) \<longrightarrow>
            Register env (Some cl) tosAgreed s =
              ((None, Some err),
               s\<lparr>world := w',
                  calls := calls s @ [PostJSON (NewAccountURL (directory cl))
                    (AccountPayload (newAccountMessage (user_Email u) tosAgreed))]\<rparr>))"
proof (cases "isConflict err")
  case True
  then have "\<exists>detail. err = RemoteError 409 detail"
    by (cases err) (simp_all add: isConflict_def)
  with True assms show ?thesis
    by (auto simp: Register_def invoke_def Let_def)
next
  case False
  then have "\<forall>detail. err \<noteq> RemoteError 409 detail"
    by (auto simp: isConflict_def)
  with False assms show ?thesis
    by (auto simp: Register_def invoke_def Let_def)
qed

theorem conflict_adopts_registration_witness:
  "user (exampleClient noSolvers :: (string list) Client) =
       Some \<lparr>user_Email = ''admin@example.com'', user_Registration = None\<rparr>
   \<and> fst (Register conflictCA (Some (exampleClient noSolvers)) True (start [])) =
       (Some \<lparr>URI = ''https://ca/acct/7'', Body = accountMessage_zero\<lparr>acct_Status := ''valid''\<rparr>\<rparr>, None)
   \<and> kid (snd (Register conflictCA (Some (exampleClient noSolvers)) True (start []))) =
       ''https://ca/acct/7''
   \<and> fst (Register unavailableCA (Some (exampleClient noSolvers)) True (start [])) =
       (None, Some (RemoteError 503 ''try later''))"
proof -
  let ?u = "\<lparr>user_Email = ''admin@example.com'', user_Registration = None\<rparr>"
  let ?c = "exampleClient noSolvers :: (string list) Client"
  have u: "user ?c = Some ?u"
    by (simp add: exampleClient_def)
  have p1: "postJSON_account conflictCA (kid (start [])) (NewAccountURL (directory ?c))
      (newAccountMessage (user_Email ?u) True) (world (start [])) =
      ((locationHeader ''https://ca/acct/7'', accountMessage_zero\<lparr>acct_Status := ''valid''\<rparr>,
        Some (RemoteError 409 ''account exists'')), [])"
    by (simp add: conflictCA_def scriptedCA_def start_def)
  have p2: "postJSON_account unavailableCA (kid (start [])) (NewAccountURL (directory ?c))
      (newAccountMessage (user_Email ?u) True) (world (start [])) =
      ((locationHeader [], accountMessage_zero, Some (RemoteError 503 ''try later'')), [])"
    by (simp add: unavailableCA_def scriptedCA_def start_def)
  note adopted = conflict_adopts_registration [OF u p1, THEN conjunct1]
  note refused = conflict_adopts_registration [OF u p2, THEN conjunct2]
  have r1: "fst (Register conflictCA (Some ?c) True (start [])) =
      (Some \<lparr>URI = ''https://ca/acct/7'', Body = accountMessage_zero\<lparr>acct_Status := ''valid''\<rparr>\<rparr>, None)"
    using adopted by (simp add: hdrGet_def locationHeader_def)
  have r2: "kid (snd (Register conflictCA (Some ?c) True (start []))) = ''https://ca/acct/7''"
    using adopted by (simp add: hdrGet_def locationHeader_def)
  have r3: "fst (Register unavailableCA (Some ?c) True (start [])) =
      (None, Some (RemoteError 503 ''try later''))"
    using refused by simp
  from u r1 r2 r3 show ?thesis by blast
qed

text \<open>
  C8. The passing of the 30 second deadline is the reception from \<open>stopTimer.C\<close>,
  the event \<open>StopTimer\<close> of the schedule; before it the \<open>select\<close> may have received
  any number \<open>n\<close> of ticks. If the CA answers the finalize request and every poll
  without error and with a status that is neither \<open>valid\<close> nor \<open>invalid\<close>, the call
  returns, with the error "certificate polling timed out" and no certificate, after
  exactly \<open>n\<close> polls.
\<close>

theorem finalize_poll_times_out:
  assumes "\<forall>k url old w. snd (fst (postAsGet_order env k url old w)) = None
       \<and> order_Status (fst (fst (postAsGet_order env k url old w))) \<noteq> statusValid
       \<and> order_Status (fst (fst (postAsGet_order env k url old w))) \<noteq> statusInvalid"
    and "\<forall>k url csrString w. snd (fst (postJSON_csr env k url csrString w)) = None
       \<and> order_Status (fst (fst (postJSON_csr env k url csrString w))) \<noteq> statusValid
       \<and> order_Status (fst (fst (postJSON_csr env k url csrString w))) \<noteq> statusInvalid"
    and "res_Domains order \<noteq> []"
  shows "\<exists>s'. requestCertificateForCsr env c order bundle csr privateKeyPem
             (replicate n RetryTick @ StopTimer # rest) s =
           Some ((None, Some (Err ''certificate polling timed out'')), s')
         \<and> calls s' = calls s @ PostJSON (order_Finalize (res_orderMessage order))
               (CsrPayload (base64_RawURLEncoding env csr))
             # replicate n (PostAsGet (res_URL order))"
proof -
  obtain commonName others where d: "res_Domains order = commonName # others"
    using assms(3) by (cases "res_Domains order") auto
  let ?url = "order_Finalize (res_orderMessage order)"
  let ?csr = "base64_RawURLEncoding env csr"
  obtain om err w' where p: "postJSON_csr env (kid s) ?url ?csr (world s) = ((om, err), w')"
    by (metis surj_pair)
  note fin = assms(2)
  from fin [rule_format, of "kid s" ?url ?csr "world s"] p
  have e: "err = None" and nv: "order_Status om \<noteq> statusValid"
    and ni: "order_Status om \<noteq> statusInvalid"
    by simp_all
  let ?s1 = "s\<lparr>world := w', calls := calls s @ [PostJSON ?url (CsrPayload ?csr)]\<rparr>"
  let ?certRes = "CertificateResource_zero
        \<lparr>Domain := commonName, CertURL := order_Certificate om, PrivateKey := privateKeyPem\<rparr>"
  note poll = assms(1)
  from pollLoop_times_out [OF poll, of order "bundle" n rest om ?certRes ?s1]
  obtain s' where
    r: "pollLoop env order bundle (replicate n RetryTick @ StopTimer # rest) om ?certRes ?s1 =
          Some ((None, Some (Err ''certificate polling timed out'')), s')"
    and c: "calls s' = calls ?s1 @ replicate n (PostAsGet (res_URL order))"
    by blast
  have "requestCertificateForCsr env c order bundle csr privateKeyPem
      (replicate n RetryTick @ StopTimer # rest) s =
      Some ((None, Some (Err ''certificate polling timed out'')), s')"
    using d p e nv ni r by (simp add: requestCertificateForCsr_def invoke_def Let_def)
  moreover have "calls s' = calls s @ PostJSON ?url (CsrPayload ?csr)
      # replicate n (PostAsGet (res_URL order))"
    using c by simp
  ultimately show ?thesis by blast
qed

theorem finalize_poll_times_out_witness:
  "(\<forall>k url old w. snd (fst (postAsGet_order stuckCA k url old w)) = None
       \<and> order_Status (fst (fst (postAsGet_order stuckCA k url old w))) \<noteq> statusValid
       \<and> order_Status (fst (fst (postAsGet_order stuckCA k url old w))) \<noteq> statusInvalid)
   \<and> (\<forall>k url csrString w. snd (fst (postJSON_csr stuckCA k url csrString w)) = None
       \<and> order_Status (fst (fst (postJSON_csr stuckCA k url csrString w))) \<noteq> statusValid
       \<and> order_Status (fst (fst (postJSON_csr stuckCA k url csrString w))) \<noteq> statusInvalid)
   \<and> res_Domains exampleOrder \<noteq> []
   \<and> (\<exists>s'. requestCertificateForCsr stuckCA (exampleClient noSolvers) exampleOrder False ''CSR'' None
             (replicate 2 RetryTick @ StopTimer # []) (start []) =
           Some ((None, Some (Err ''certificate polling timed out'')), s')
         \<and> calls s' = [PostJSON ''https://ca/finalize/1'' (CsrPayload ''CSR''),
              PostAsGet ''https://ca/order/1'', PostAsGet ''https://ca/order/1''])"
proof -
  have h1: "\<forall>k url old w. snd (fst (postAsGet_order stuckCA k url old w)) = None
       \<and> order_Status (fst (fst (postAsGet_order stuckCA k url old w))) \<noteq> statusValid
       \<and> order_Status (fst (fst (postAsGet_order stuckCA k url old w))) \<noteq> statusInvalid"
    by (simp add: stuckCA_def statusValid_def statusInvalid_def)
  have h2: "\<forall>k url csrString w. snd (fst (postJSON_csr stuckCA k url csrString w)) = None
       \<and> order_Status (fst (fst (postJSON_csr stuckCA k url csrString w))) \<noteq> statusValid
       \<and> order_Status (fst (fst (postJSON_csr stuckCA k url csrString w))) \<noteq> statusInvalid"
    by (simp add: stuckCA_def statusValid_def statusInvalid_def orderMessage_zero_def)
  have h3: "res_Domains exampleOrder \<noteq> []"
    by (simp add: exampleOrder_def)
  from finalize_poll_times_out [OF h1 h2 h3, of "exampleClient noSolvers" False "''CSR''" None 2 "[]"
      "start []"]
  have "\<exists>s'. requestCertificateForCsr stuckCA (exampleClient noSolvers) exampleOrder False ''CSR'' None
             (replicate 2 RetryTick @ StopTimer # []) (start []) =
           Some ((None, Some (Err ''certificate polling timed out'')), s')
         \<and> calls s' = [PostJSON ''https://ca/finalize/1'' (CsrPayload ''CSR''),
              PostAsGet ''https://ca/order/1'', PostAsGet ''https://ca/order/1'']"
    by (simp add: exampleOrder_def orderMessage_zero_def start_def stuckCA_def scriptedCA_def
          numeral_2_eq_2)
  with h1 h2 h3 show ?thesis by blast
qed

text \<open>
  C9. For a sequence \<open>D\<close> of domains without duplicates and with a first element:
  the order that \<open>createOrderForIdentifiers\<close> returns carries \<open>D\<close> unchanged and the
  identifiers submitted are \<open>D\<close> in the same order. On an order with these domains
  \<open>requestCertificateForOrder\<close>, once it has a private key, generates the CSR with
  the first element of \<open>D\<close> as common name (followed in the SAN list by the order's
  identifiers that differ from it) and submits that CSR; it returns without
  generating a CSR only when the generation of the private key failed, and then with
  that error and no certificate. Whenever \<open>requestCertificateForOrder\<close> or
  \<open>ObtainCertificate\<close> returns a certificate resource, exactly one CSR was generated,
  its common name is the first element of \<open>D\<close>, and so is the resource's
  \<open>Domain\<close>.
\<close>

theorem order_keeps_domains_and_common_name:
  assumes "distinct D" and "D \<noteq> []"
  shows "(\<forall>order s1. createOrderForIdentifiers env c D s = ((order, None), s1) \<longrightarrow>
            res_Domains order = D)
     \<and> submittedIdentifiers (calls (snd (createOrderForIdentifiers env c D s))) =
         submittedIdentifiers (calls s) @ [D]
     \<and> (\<forall>order.
            res_Domains order = D \<longrightarrow>
            requestCertificateForOrder env c order bundle privKey mustStaple sched s =
              (case (case privKey of
                       Some key \<Rightarrow> (Inr key, s)
                     | None \<Rightarrow> invoke GeneratePrivateKey (generatePrivateKey env (keyType c)) s) of
                 (Inl e, s1) \<Rightarrow> Some ((None, Some e), s1)
               | (Inr key, s1) \<Rightarrow>
                   (case invoke
                           (GenerateCsr (hd D)
                              (hd D # map id_Value (filter (\<lambda>auth. id_Value auth \<noteq> hd D)
                                 (order_Identifiers (res_orderMessage order))))
                              mustStaple)
                           (generateCsr env key (hd D)
                              (hd D # map id_Value (filter (\<lambda>auth. id_Value auth \<noteq> hd D)
                                 (order_Identifiers (res_orderMessage order))))
                              mustStaple) s1 of
                      (Inl e, s2) \<Rightarrow> Some ((None, Some e), s2)
                    | (Inr csr, s2) \<Rightarrow>
                        requestCertificateForCsr env c order bundle csr
                          (Some (pemEncode_key env key)) sched s2)))
     \<and> (\<forall>order cert err s'.
            res_Domains order = D \<and>
            requestCertificateForOrder env c order bundle privKey mustStaple sched s =
              Some ((cert, err), s') \<longrightarrow>
            (\<forall>cr. cert = Some cr \<longrightarrow>
               Domain cr = hd D
               \<and> csrCommonNames (calls s') = csrCommonNames (calls s) @ [hd D])
            \<and> (csrCommonNames (calls s') = csrCommonNames (calls s) @ [hd D]
               \<or> (csrCommonNames (calls s') = csrCommonNames (calls s) \<and> cert = None
                   \<and> privKey = None
                   \<and> (\<exists>e. fst (generatePrivateKey env (keyType c) (world s)) = Inl e
                          \<and> err = Some e))))
     \<and> (\<forall>cert err s'.
            ObtainCertificate env c D bundle privKey mustStaple sched s = Some ((cert, err), s') \<longrightarrow>
            (\<forall>cr. cert = Some cr \<longrightarrow>
               Domain cr = hd D
               \<and> csrCommonNames (calls s') = csrCommonNames (calls s) @ [hd D])
            \<and> (csrCommonNames (calls s') = csrCommonNames (calls s)
               \<or> csrCommonNames (calls s') = csrCommonNames (calls s) @ [hd D]))"
proof -
  note nonempty = assms(2)
  have p1: "\<forall>order s1. createOrderForIdentifiers env c D s = ((order, None), s1) \<longrightarrow>
      res_Domains order = D"
    using createOrder_Domains by blast
  have p2: "submittedIdentifiers (calls (snd (createOrderForIdentifiers env c D s))) =
      submittedIdentifiers (calls s) @ [D]"
    by (simp add: createOrder_calls submittedIdentifiers_append comp_def)
  obtain d ds where D: "D = d # ds"
    using nonempty by (cases D) auto
  have p3: "\<forall>order.
      res_Domains order = D \<longrightarrow>
      requestCertificateForOrder env c order bundle privKey mustStaple sched s =
        (case (case privKey of
                 Some key \<Rightarrow> (Inr key, s)
               | None \<Rightarrow> invoke GeneratePrivateKey (generatePrivateKey env (keyType c)) s) of
           (Inl e, s1) \<Rightarrow> Some ((None, Some e), s1)
         | (Inr key, s1) \<Rightarrow>
             (case invoke
                     (GenerateCsr (hd D)
                        (hd D # map id_Value (filter (\<lambda>auth. id_Value auth \<noteq> hd D)
                           (order_Identifiers (res_orderMessage order))))
                        mustStaple)
                     (generateCsr env key (hd D)
                        (hd D # map id_Value (filter (\<lambda>auth. id_Value auth \<noteq> hd D)
                           (order_Identifiers (res_orderMessage order))))
                        mustStaple) s1 of
                (Inl e, s2) \<Rightarrow> Some ((None, Some e), s2)
              | (Inr csr, s2) \<Rightarrow>
                  requestCertificateForCsr env c order bundle csr
                    (Some (pemEncode_key env key)) sched s2))"
  proof (intro allI impI)
    fix order :: orderResource
    assume "res_Domains order = D"
    then have dom: "res_Domains order = d # ds" and hd: "hd D = d"
      using D by simp_all
    show "requestCertificateForOrder env c order bundle privKey mustStaple sched s =
        (case (case privKey of
                 Some key \<Rightarrow> (Inr key, s)
               | None \<Rightarrow> invoke GeneratePrivateKey (generatePrivateKey env (keyType c)) s) of
           (Inl e, s1) \<Rightarrow> Some ((None, Some e), s1)
         | (Inr key, s1) \<Rightarrow>
             (case invoke
                     (GenerateCsr (hd D)
                        (hd D # map id_Value (filter (\<lambda>auth. id_Value auth \<noteq> hd D)
                           (order_Identifiers (res_orderMessage order))))
                        mustStaple)
                     (generateCsr env key (hd D)
                        (hd D # map id_Value (filter (\<lambda>auth. id_Value auth \<noteq> hd D)
                           (order_Identifiers (res_orderMessage order))))
                        mustStaple) s1 of
                (Inl e, s2) \<Rightarrow> Some ((None, Some e), s2)
              | (Inr csr, s2) \<Rightarrow>
                  requestCertificateForCsr env c order bundle csr
                    (Some (pemEncode_key env key)) sched s2))"
      unfolding requestCertificateForOrder_def dom hd list.case Let_def ..
  qed
  have p4: "\<forall>order cert err s'.
      res_Domains order = D \<and>
      requestCertificateForOrder env c order bundle privKey mustStaple sched s =
        Some ((cert, err), s') \<longrightarrow>
      (\<forall>cr. cert = Some cr \<longrightarrow>
         Domain cr = hd D
         \<and> csrCommonNames (calls s') = csrCommonNames (calls s) @ [hd D])
      \<and> (csrCommonNames (calls s') = csrCommonNames (calls s) @ [hd D]
         \<or> (csrCommonNames (calls s') = csrCommonNames (calls s) \<and> cert = None
             \<and> privKey = None
             \<and> (\<exists>e. fst (generatePrivateKey env (keyType c) (world s)) = Inl e
                    \<and> err = Some e)))"
  proof (intro allI impI)
    fix order cert err s'
    assume a: "res_Domains order = D \<and>
      requestCertificateForOrder env c order bundle privKey mustStaple sched s =
        Some ((cert, err), s')"
    then have run: "requestCertificateForOrder env c order bundle privKey mustStaple sched s =
        Some ((cert, err), s')"
      and dom: "res_Domains order = D"
      by simp_all
    note rn = requestCertificateForOrder_names [OF run, unfolded dom]
    from rn have dm: "\<forall>cr. cert = Some cr \<longrightarrow> Domain cr = hd D"
      by blast
    from rn have alt: "csrCommonNames (calls s') = csrCommonNames (calls s) @ [hd D]
         \<or> (csrCommonNames (calls s') = csrCommonNames (calls s) \<and> cert = None
             \<and> privKey = None
             \<and> (\<exists>e. fst (generatePrivateKey env (keyType c) (world s)) = Inl e
                    \<and> err = Some e))"
      by blast
    from alt have "\<forall>cr. cert = Some cr \<longrightarrow>
        csrCommonNames (calls s') = csrCommonNames (calls s) @ [hd D]"
      by auto
    with dm alt show "(\<forall>cr. cert = Some cr \<longrightarrow>
         Domain cr = hd D
         \<and> csrCommonNames (calls s') = csrCommonNames (calls s) @ [hd D])
      \<and> (csrCommonNames (calls s') = csrCommonNames (calls s) @ [hd D]
         \<or> (csrCommonNames (calls s') = csrCommonNames (calls s) \<and> cert = None
             \<and> privKey = None
             \<and> (\<exists>e. fst (generatePrivateKey env (keyType c) (world s)) = Inl e
                    \<and> err = Some e)))"
      by blast
  qed
  have p5: "\<forall>cert err s'.
      ObtainCertificate env c D bundle privKey mustStaple sched s = Some ((cert, err), s') \<longrightarrow>
      (\<forall>cr. cert = Some cr \<longrightarrow>
         Domain cr = hd D
         \<and> csrCommonNames (calls s') = csrCommonNames (calls s) @ [hd D])
      \<and> (csrCommonNames (calls s') = csrCommonNames (calls s)
         \<or> csrCommonNames (calls s') = csrCommonNames (calls s) @ [hd D])"
    using ObtainCertificate_names [OF _ nonempty] by blast
  from p1 p2 p3 p4 p5 show ?thesis by blast
qed

theorem order_keeps_domains_and_common_name_witness:
  "distinct [''example.com'', ''www.example.com'']
   \<and> [''example.com'', ''www.example.com''] \<noteq> []
   \<and> map_option (\<lambda>r. map_option Domain (fst (fst r)))
        (ObtainCertificate scriptedCA (exampleClient noSolvers) [''example.com'', ''www.example.com'']
           False None False [RetryTick, StopTimer] (start [''valid''])) = Some (Some ''example.com'')
   \<and> map_option (\<lambda>r. csrCommonNames (calls (snd r)))
        (ObtainCertificate scriptedCA (exampleClient noSolvers) [''example.com'', ''www.example.com'']
           False None False [RetryTick, StopTimer] (start [''valid''])) = Some [''example.com'']"
proof -
  let ?D = "[''example.com'', ''www.example.com'']"
  let ?run = "ObtainCertificate scriptedCA (exampleClient noSolvers) ?D
      False None False [RetryTick, StopTimer] (start [''valid''])"
  have h1: "distinct ?D" by simp
  have h2: "?D \<noteq> []" by simp
  have "map_option (\<lambda>r. fst (fst r) \<noteq> None) ?run = Some True"
    by code_simp
  then obtain cr err s' where run: "?run = Some ((Some cr, err), s')"
    by (cases ?run) auto
  from order_keeps_domains_and_common_name [OF h1 h2, of scriptedCA "exampleClient noSolvers"
      "start [''valid'']" False None False "[RetryTick, StopTimer]"]
  have "\<forall>cert err s'. ?run = Some ((cert, err), s') \<longrightarrow>
      (\<forall>cr. cert = Some cr \<longrightarrow>
         Domain cr = hd ?D
         \<and> csrCommonNames (calls s') = csrCommonNames (calls (start [''valid''])) @ [hd ?D])"
    by blast
  with run have "Domain cr = ''example.com''"
    and "csrCommonNames (calls s') = [''example.com'']"
    by (simp_all add: start_def)
  with run h1 h2 show ?thesis by simp
qed

text \<open>
  C10. With an empty domain list \<open>ObtainCertificate\<close> returns no certificate and an
  error, and the state it returns is the state it was given: no order was created and
  the log of calls has not grown.
\<close>

theorem no_domains_no_request:
  "ObtainCertificate env c [] bundle privKey mustStaple sched s =
     Some ((None, Some (Plain (Err ''no domains to obtain a certificate for''))), s)"
  by (simp add: ObtainCertificate_def)

end
